theory Spec2Isabelle
  imports Complex_Main "HOL-Library.Word" "HOL-Library.Multiset" "HOL-Library.Product_Lexorder"
    "HOL-Library.List_Lexorder" "HOL-Library.Char_ord" "HOL-Library.Code_Target_Numeral"
begin

unbundle bit_operations_syntax

section \<open>Data model\<close>

text \<open>
  The repository is a proxy between a dashboard tool and an asynchronous query backend.
  \<^verbatim>\<open>app.py\<close> holds the TTL cache, the cache key deriver, the execution engine, the
  timestamp normalizer, the two shaping adapters and the request handlers;
  \<^verbatim>\<open>apigrail.py\<close> is an earlier, shorter variant of the engine and of the two adapters.

  Strings are byte strings (\<open>char list\<close>). Wall-clock time is a \<open>real\<close> number of
  seconds: every reading of \<^verbatim>\<open>time.time()\<close> is an explicit input of the model, and the
  rounding of floating-point subtraction is not modelled.
\<close>

text \<open>
  A field of a backend record, as \<^verbatim>\<open>json.loads\<close> delivers it. \<open>VOther\<close> is an array or
  an object, carried as its \<^verbatim>\<open>str()\<close> rendering. The type \<open>'f\<close> is Python's float.
\<close>

datatype 'f jv =
    VNone
  | VBool bool
  | VInt int
  | VFloat 'f
  | VStr string
  | VOther string

type_synonym 'f rec = "(string \<times> 'f jv) list"

text \<open>
  The JSON object of a backend response, with the members the code reads:
  \<^verbatim>\<open>jobId\<close>, \<^verbatim>\<open>status\<close> and \<^verbatim>\<open>result.records\<close> (\<open>None\<close> when \<^verbatim>\<open>result\<close> or
  \<^verbatim>\<open>records\<close> is missing).
\<close>

record 'f body =
  jobId :: "string option"
  status :: "string option"
  records :: "'f rec list option"

text \<open>\<^verbatim>\<open>j.get("result", {}).get("records", [])\<close>\<close>

definition records_of :: "'f body \<Rightarrow> 'f rec list" where
  "records_of j = (case records j of None \<Rightarrow> [] | Some rs \<Rightarrow> rs)"

text \<open>
  Every raise of the source is a constructor, one for each place that raises.
  \<open>http_exception\<close> gives the \<^verbatim>\<open>HTTPException(status, detail)\<close> raised there;
  \<open>JsonDumps j\<close> is the string \<^verbatim>\<open>json.dumps(j)\<close>.
\<close>

datatype 'f error =
    NotConfigured
  | SubmitRejected nat string
  | NoJobId
  | PollRejected nat string
  | BackendFailed "'f body"
  | Timeout
  | TransportError
  | JSONDecodeError
  | Unauthorized
  | Forbidden
  | MissingDql
  | ValueError
  | OverflowError
  | TypeError

datatype 'f detail = Text string | JsonDumps "'f body"

fun http_exception :: "'f error \<Rightarrow> (nat \<times> 'f detail) option" where
  "http_exception NotConfigured = Some (500, Text ''DT_URL/DT_TOKEN not configured'')"
| "http_exception (SubmitRejected code txt) = Some (code, Text txt)"
| "http_exception NoJobId = Some (502, Text ''Grail did not return a jobId'')"
| "http_exception (PollRejected code txt) = Some (code, Text txt)"
| "http_exception (BackendFailed j) = Some (502, JsonDumps j)"
| "http_exception Timeout = Some (504, Text ''Grail timeout'')"
| "http_exception Unauthorized = Some (401, Text ''Missing or invalid Authorization header'')"
| "http_exception Forbidden = Some (403, Text ''Forbidden'')"
| "http_exception MissingDql = Some (400, Text (''Missing '' @ [CHR 0x27] @ ''dql'' @ [CHR 0x27]))"
| "http_exception e = None"

text \<open>
  The library functions the source calls and that are not code of the repository:
  float arithmetic, \<^verbatim>\<open>datetime.fromisoformat\<close> (\<open>None\<close> is its \<^verbatim>\<open>ValueError\<close>),
  \<^verbatim>\<open>dt.replace(tzinfo=timezone.utc)\<close>, \<^verbatim>\<open>int(dt.timestamp() * 1000)\<close>, and
  \<^verbatim>\<open>list.sort\<close> on keys that are not all integers.
\<close>

record ('f, 'dt) pylib =
  fl_times_1000 :: "'f \<Rightarrow> 'f"
  fl_lt_1e12 :: "'f \<Rightarrow> bool"
  fl_int :: "'f \<Rightarrow> 'f error + int"
  fl_str :: "'f \<Rightarrow> string"
  fromisoformat :: "string \<Rightarrow> 'dt option"
  replace_utc :: "'dt \<Rightarrow> 'dt"
  epoch_ms :: "'dt \<Rightarrow> 'f error + int"
  sort_mixed :: "('f jv \<times> 'f jv) list \<Rightarrow> 'f error + ('f jv \<times> 'f jv) list"

section \<open>Strings\<close>

text \<open>\<^verbatim>\<open>ts.replace("Z", "+00:00")\<close>: every \<open>Z\<close> is replaced.\<close>

definition replace_Z :: "string \<Rightarrow> string" where
  "replace_Z s = concat (map (\<lambda>c. if c = CHR ''Z'' then ''+00:00'' else [c]) s)"

text \<open>\<^verbatim>\<open>iso.split(".")[0]\<close>: the text before the first dot.\<close>

definition split_dot_head :: "string \<Rightarrow> string" where
  "split_dot_head s = takeWhile (\<lambda>c. c \<noteq> CHR ''.'') s"

text \<open>\<^verbatim>\<open>k.lower()\<close> on the ASCII letters.\<close>

definition lower_char :: "char \<Rightarrow> char" where
  "lower_char c =
     (if 65 \<le> (of_char c :: nat) \<and> (of_char c :: nat) \<le> 90
      then char_of (of_char c + (32::nat)) else c)"

definition lower :: "string \<Rightarrow> string" where
  "lower s = map lower_char s"

text \<open>\<^verbatim>\<open>sub in s\<close> on strings.\<close>

fun contains :: "string \<Rightarrow> string \<Rightarrow> bool" where
  "contains sub [] = (sub = [])"
| "contains sub (c # cs) = (take (length sub) (c # cs) = sub \<or> contains sub cs)"

text \<open>\<^verbatim>\<open>str(n)\<close> of an integer.\<close>

fun str_nat :: "nat \<Rightarrow> string" where
  "str_nat n =
     (if n < 10 then [char_of (48 + n)]
      else str_nat (n div 10) @ [char_of (48 + n mod 10)])"

definition str_int :: "int \<Rightarrow> string" where
  "str_int i = (if i < 0 then CHR ''-'' # str_nat (nat (- i)) else str_nat (nat i))"

fun py_str :: "('f, 'dt) pylib \<Rightarrow> 'f jv \<Rightarrow> string" where
  "py_str lib VNone = ''None''"
| "py_str lib (VBool b) = (if b then ''True'' else ''False'')"
| "py_str lib (VInt i) = str_int i"
| "py_str lib (VFloat f) = fl_str lib f"
| "py_str lib (VStr s) = s"
| "py_str lib (VOther s) = s"

text \<open>\<^verbatim>\<open>r.get(k)\<close>: a missing key and a null field both read as \<open>None\<close>.\<close>

definition get :: "'f rec \<Rightarrow> string \<Rightarrow> 'f jv" where
  "get r k = (case map_of r k of None \<Rightarrow> VNone | Some v \<Rightarrow> v)"

section \<open>Timestamp normalizer (app.py)\<close>

fun to_epoch_ms :: "('f, 'dt) pylib \<Rightarrow> 'f jv \<Rightarrow> 'f error + int option" where
  "to_epoch_ms lib VNone = Inr None"
| "to_epoch_ms lib (VBool b) = Inr (Some (if b then 1000 else 0))"
| "to_epoch_ms lib (VInt t) = Inr (Some (if t < 10 ^ 12 then t * 1000 else t))"
| "to_epoch_ms lib (VFloat f) =
     map_sum id Some (if fl_lt_1e12 lib f then fl_int lib (fl_times_1000 lib f) else fl_int lib f)"
| "to_epoch_ms lib (VStr ts) =
     (let iso = replace_Z ts in
      case fromisoformat lib iso of
        Some dt \<Rightarrow> map_sum id Some (epoch_ms lib dt)
      | None \<Rightarrow>
          (case fromisoformat lib (split_dot_head iso) of
             None \<Rightarrow> Inl ValueError
           | Some dt \<Rightarrow> map_sum id Some (epoch_ms lib (replace_utc lib dt))))"
| "to_epoch_ms lib (VOther s) = Inr None"

text \<open>\<^verbatim>\<open>t * 1000\<close> on a numeric field (a bool is an int in Python).\<close>

fun times_1000 :: "('f, 'dt) pylib \<Rightarrow> 'f jv \<Rightarrow> 'f jv" where
  "times_1000 lib (VInt t) = VInt (t * 1000)"
| "times_1000 lib (VBool b) = VInt (if b then 1000 else 0)"
| "times_1000 lib (VFloat f) = VFloat (fl_times_1000 lib f)"
| "times_1000 lib v = v"

text \<open>\<^verbatim>\<open>t < 10**12\<close> and \<^verbatim>\<open>isinstance(t, (int, float))\<close>.\<close>

fun lt_1e12 :: "('f, 'dt) pylib \<Rightarrow> 'f jv \<Rightarrow> bool" where
  "lt_1e12 lib (VInt t) = (t < 10 ^ 12)"
| "lt_1e12 lib (VBool b) = True"
| "lt_1e12 lib (VFloat f) = fl_lt_1e12 lib f"
| "lt_1e12 lib v = False"

fun is_numeric :: "'f jv \<Rightarrow> bool" where
  "is_numeric (VInt t) = True"
| "is_numeric (VBool b) = True"
| "is_numeric (VFloat f) = True"
| "is_numeric v = False"

fun is_string :: "'f jv \<Rightarrow> bool" where
  "is_string (VStr s) = True"
| "is_string v = False"

fun is_float :: "'f jv \<Rightarrow> bool" where
  "is_float (VFloat f) = True"
| "is_float v = False"

section \<open>Table adapter\<close>

record 'f table_view =
  tschema :: string
  columns :: "string list"
  rows :: "'f jv list list"

text \<open>The set comprehension \<^verbatim>\<open>{k for r in recs for k in r.keys()}\<close>, as a duplicate-free list.\<close>

definition all_keys :: "'f rec list \<Rightarrow> string list" where
  "all_keys recs = remdups (concat (map (map fst) recs))"

text \<open>app.py: the inner function \<^verbatim>\<open>sort_key\<close> of \<^verbatim>\<open>to_grafana_table\<close>.\<close>

definition col_sort_key :: "string \<Rightarrow> nat \<times> string" where
  "col_sort_key k =
     (if contains ''time'' (lower k) \<or> k = ''timestamp'' then (0, k) else (1, k))"

definition to_grafana_table :: "'f body \<Rightarrow> 'f table_view" where
  "to_grafana_table j =
     (let recs = records_of j;
          keys = sort_key col_sort_key (all_keys recs)
      in \<lparr>tschema = ''grafana-table'', columns = keys,
          rows = map (\<lambda>r. map (get r) keys) recs\<rparr>)"

text \<open>apigrail.py: \<^verbatim>\<open>cols = sorted({k for r in records for k in r.keys()})\<close>.\<close>

definition apigrail_to_grafana_table :: "'f body \<Rightarrow> 'f table_view" where
  "apigrail_to_grafana_table j =
     (let recs = records_of j;
          cols = sort (all_keys recs)
      in \<lparr>tschema = ''grafana-table'', columns = cols,
          rows = map (\<lambda>r. map (get r) cols) recs\<rparr>)"

section \<open>Timeseries adapter\<close>

record ('t, 'f) frame =
  name :: string
  time_values :: "'t list"
  value_values :: "'f jv list"

record ('t, 'f) series_view =
  sschema :: string
  frames :: "('t, 'f) frame list"

text \<open>
  The dict \<^verbatim>\<open>series\<close> keeps its keys in insertion order:
  \<^verbatim>\<open>series.setdefault(key, []).append(pt)\<close>.
\<close>

fun series_append :: "string \<Rightarrow> 'p \<Rightarrow> (string \<times> 'p list) list \<Rightarrow> (string \<times> 'p list) list" where
  "series_append key pt [] = [(key, [pt])]"
| "series_append key pt ((k, pts) # rest) =
     (if k = key then (k, pts @ [pt]) # rest else (k, pts) # series_append key pt rest)"

text \<open>\<^verbatim>\<open>str(r.get(label)) if label else "series"\<close>\<close>

definition group_key :: "('f, 'dt) pylib \<Rightarrow> string option \<Rightarrow> 'f rec \<Rightarrow> string" where
  "group_key lib label r =
     (case label of
        None \<Rightarrow> ''series''
      | Some l \<Rightarrow> if l = [] then ''series'' else py_str lib (get r l))"

text \<open>app.py: the loop over the records, with the dict built so far.\<close>

fun group_records ::
  "('f, 'dt) pylib \<Rightarrow> string \<Rightarrow> string \<Rightarrow> string option \<Rightarrow> 'f rec list \<Rightarrow>
   (string \<times> (int \<times> 'f jv) list) list \<Rightarrow> 'f error + (string \<times> (int \<times> 'f jv) list) list" where
  "group_records lib timecol value label [] series = Inr series"
| "group_records lib timecol value label (r # rs) series =
     (let key = group_key lib label r in
      case to_epoch_ms lib (get r timecol) of
        Inl e \<Rightarrow> Inl e
      | Inr ts \<Rightarrow>
          (let val = get r value in
           case ts of
             None \<Rightarrow> group_records lib timecol value label rs series
           | Some t \<Rightarrow>
               if val = VNone then group_records lib timecol value label rs series
               else group_records lib timecol value label rs (series_append key (t, val) series)))"

text \<open>\<^verbatim>\<open>pts.sort(key=lambda x: x[0])\<close> is a stable sort; so is \<open>sort_key\<close>.\<close>

definition make_frame :: "string \<times> (int \<times> 'f jv) list \<Rightarrow> (int, 'f) frame" where
  "make_frame kp =
     (let pts = sort_key fst (snd kp)
      in \<lparr>name = fst kp, time_values = map fst pts, value_values = map snd pts\<rparr>)"

definition to_grafana_timeseries ::
  "('f, 'dt) pylib \<Rightarrow> 'f body \<Rightarrow> string \<Rightarrow> string \<Rightarrow> string option \<Rightarrow>
   'f error + (int, 'f) series_view" where
  "to_grafana_timeseries lib j timecol value label =
     (case group_records lib timecol value label (records_of j) [] of
        Inl e \<Rightarrow> Inl e
      | Inr series \<Rightarrow> Inr \<lparr>sschema = ''grafana-timeseries'', frames = map make_frame series\<rparr>)"

text \<open>
  apigrail.py normalizes the timestamp inline: a string is parsed (no fallback), a number
  below \<open>10^12\<close> is scaled, anything else is kept as it is. Every record becomes a
  point. The parameter \<^verbatim>\<open>fill\<close> of the source is never read.
\<close>

fun apigrail_normalize :: "('f, 'dt) pylib \<Rightarrow> 'f jv \<Rightarrow> 'f error + 'f jv" where
  "apigrail_normalize lib (VStr ts) =
     (case fromisoformat lib (replace_Z ts) of
        None \<Rightarrow> Inl ValueError
      | Some dt \<Rightarrow> map_sum id VInt (epoch_ms lib dt))"
| "apigrail_normalize lib (VInt t) = Inr (if t < 10 ^ 12 then VInt (t * 1000) else VInt t)"
| "apigrail_normalize lib (VBool b) = Inr (VInt (if b then 1000 else 0))"
| "apigrail_normalize lib (VFloat f) =
     (if fl_lt_1e12 lib f then map_sum id VInt (fl_int lib (fl_times_1000 lib f))
      else Inr (VFloat f))"
| "apigrail_normalize lib v = Inr v"

fun apigrail_group_records ::
  "('f, 'dt) pylib \<Rightarrow> string \<Rightarrow> string \<Rightarrow> string option \<Rightarrow> 'f rec list \<Rightarrow>
   (string \<times> ('f jv \<times> 'f jv) list) list \<Rightarrow> 'f error + (string \<times> ('f jv \<times> 'f jv) list) list" where
  "apigrail_group_records lib timecol value label [] series = Inr series"
| "apigrail_group_records lib timecol value label (r # rs) series =
     (let key = group_key lib label r in
      case apigrail_normalize lib (get r timecol) of
        Inl e \<Rightarrow> Inl e
      | Inr ts \<Rightarrow>
          apigrail_group_records lib timecol value label rs
            (series_append key (ts, get r value) series))"

fun is_VInt :: "'f jv \<Rightarrow> bool" where
  "is_VInt (VInt t) = True"
| "is_VInt v = False"

fun int_of :: "'f jv \<Rightarrow> int" where
  "int_of (VInt t) = t"
| "int_of v = 0"

text \<open>
  \<^verbatim>\<open>pts.sort(key=lambda x: x[0])\<close> in apigrail.py, where a timestamp may be of any
  type: no comparison is made on fewer than two points, integers are sorted, and the
  other cases are left to the library (\<^verbatim>\<open>TypeError\<close> on \<open>None\<close>, for instance).
\<close>

definition apigrail_sort ::
  "('f, 'dt) pylib \<Rightarrow> ('f jv \<times> 'f jv) list \<Rightarrow> 'f error + ('f jv \<times> 'f jv) list" where
  "apigrail_sort lib pts =
     (if length pts \<le> 1 then Inr pts
      else if list_all (\<lambda>p. is_VInt (fst p)) pts then Inr (sort_key (\<lambda>p. int_of (fst p)) pts)
      else sort_mixed lib pts)"

fun apigrail_frames ::
  "('f, 'dt) pylib \<Rightarrow> (string \<times> ('f jv \<times> 'f jv) list) list \<Rightarrow> 'f error + ('f jv, 'f) frame list" where
  "apigrail_frames lib [] = Inr []"
| "apigrail_frames lib ((k, pts) # rest) =
     (case apigrail_sort lib pts of
        Inl e \<Rightarrow> Inl e
      | Inr sp \<Rightarrow>
          (case apigrail_frames lib rest of
             Inl e \<Rightarrow> Inl e
           | Inr fs \<Rightarrow> Inr (\<lparr>name = k, time_values = map fst sp, value_values = map snd sp\<rparr> # fs)))"

definition apigrail_to_grafana_timeseries ::
  "('f, 'dt) pylib \<Rightarrow> 'f body \<Rightarrow> string \<Rightarrow> string \<Rightarrow> string option \<Rightarrow>
   'f error + ('f jv, 'f) series_view" where
  "apigrail_to_grafana_timeseries lib j timecol value label =
     (case apigrail_group_records lib timecol value label (records_of j) [] of
        Inl e \<Rightarrow> Inl e
      | Inr series \<Rightarrow>
          (case apigrail_frames lib series of
             Inl e \<Rightarrow> Inl e
           | Inr fs \<Rightarrow> Inr \<lparr>sschema = ''grafana-timeseries'', frames = fs\<rparr>))"

section \<open>TTL cache (app.py, class TTLCache)\<close>

text \<open>An item of the store, \<^verbatim>\<open>{"value": value, "ts": time.time()}\<close>.\<close>

record 'v entry =
  val :: 'v
  ts :: real

text \<open>
  \<^verbatim>\<open>self.store\<close> is a dict: a list of pairs in insertion order. A dict has each key once;
  \<open>wf_cache\<close> says so.
\<close>

record 'v TTLCache =
  max_items :: nat
  store :: "(string \<times> 'v entry) list"

definition wf_cache :: "'v TTLCache \<Rightarrow> bool" where
  "wf_cache c = distinct (map fst (store c))"

text \<open>\<^verbatim>\<open>d[k] = v\<close>: an existing key keeps its place, a new key goes last.\<close>

fun dict_set :: "string \<Rightarrow> 'a \<Rightarrow> (string \<times> 'a) list \<Rightarrow> (string \<times> 'a) list" where
  "dict_set k v [] = [(k, v)]"
| "dict_set k v ((k', v') # rest) =
     (if k' = k then (k, v) # rest else (k', v') # dict_set k v rest)"

text \<open>\<^verbatim>\<open>d.pop(k, None)\<close>\<close>

definition dict_pop :: "string \<Rightarrow> (string \<times> 'a) list \<Rightarrow> (string \<times> 'a) list" where
  "dict_pop k d = filter (\<lambda>p. fst p \<noteq> k) d"

text \<open>
  \<^verbatim>\<open>min(self.store, key=lambda k: self.store[k]["ts"])\<close>: the first key, in the order of
  the dict, whose timestamp no other key undercuts.
\<close>

fun min_by_ts :: "(string \<times> 'v entry) \<Rightarrow> (string \<times> 'v entry) list \<Rightarrow> string \<times> 'v entry" where
  "min_by_ts m [] = m"
| "min_by_ts m (p # ps) = min_by_ts (if ts (snd p) < ts (snd m) then p else m) ps"

text \<open>
  \<^verbatim>\<open>_evict_if_needed\<close>. \<^verbatim>\<open>min\<close> raises on an empty dict, which has no more than
  \<open>max_items\<close> entries, so that branch returns before.
\<close>

definition evict_if_needed :: "'v TTLCache \<Rightarrow> 'v TTLCache" where
  "evict_if_needed c =
     (if length (store c) \<le> max_items c then c
      else (case store c of
              [] \<Rightarrow> c
            | p # ps \<Rightarrow> c\<lparr>store := dict_pop (fst (min_by_ts p ps)) (store c)\<rparr>))"

text \<open>\<^verbatim>\<open>get(key, ttl)\<close> at clock reading \<open>now\<close>: the value or \<open>None\<close>, and the cache after.\<close>

definition cache_get :: "'v TTLCache \<Rightarrow> real \<Rightarrow> string \<Rightarrow> int \<Rightarrow> 'v option \<times> 'v TTLCache" where
  "cache_get c now key ttl =
     (case map_of (store c) key of
        None \<Rightarrow> (None, c)
      | Some item \<Rightarrow>
          if now - ts item > of_int ttl then (None, c\<lparr>store := dict_pop key (store c)\<rparr>)
          else (Some (val item), c))"

text \<open>\<^verbatim>\<open>set(key, value)\<close> at clock reading \<open>now\<close>.\<close>

definition cache_insert :: "'v TTLCache \<Rightarrow> real \<Rightarrow> string \<Rightarrow> 'v \<Rightarrow> 'v TTLCache" where
  "cache_insert c now key value = c\<lparr>store := dict_set key \<lparr>val = value, ts = now\<rparr> (store c)\<rparr>"

definition cache_set :: "'v TTLCache \<Rightarrow> real \<Rightarrow> string \<Rightarrow> 'v \<Rightarrow> 'v TTLCache" where
  "cache_set c now key value = evict_if_needed (cache_insert c now key value)"

section \<open>Cache key deriver (app.py)\<close>

text \<open>\<^verbatim>\<open>"|".join(parts)\<close>\<close>

fun join_parts :: "string list \<Rightarrow> string" where
  "join_parts [] = []"
| "join_parts [p] = p"
| "join_parts (p # q # ps) = p @ CHR ''|'' # join_parts (q # ps)"

text \<open>
  \<^verbatim>\<open>hashlib.sha1(b).hexdigest()\<close>: SHA-1 as in FIPS 180-4 on 32-bit words, the digest
  written as 40 lower-case hexadecimal digits.
\<close>

definition sha1_pad :: "string \<Rightarrow> 32 word list" where
  "sha1_pad m =
     (let n = length m; k = (119 - n mod 64) mod 64
      in map of_char m @ [0x80] @ replicate k 0 @
         map (\<lambda>i. of_nat ((8 * n) div 2 ^ (8 * (7 - i)) mod 256)) [0..<8])"

fun be_words :: "32 word list \<Rightarrow> 32 word list" where
  "be_words (a # b # c # d # r) =
     (push_bit 24 a OR push_bit 16 b OR push_bit 8 c OR d) # be_words r"
| "be_words r = []"

fun blocks16 :: "'a list \<Rightarrow> 'a list list" where
  "blocks16 xs = (if length xs < 16 then [] else take 16 xs # blocks16 (drop 16 xs))"

fun expand :: "nat \<Rightarrow> 32 word list \<Rightarrow> 32 word list" where
  "expand 0 w = w"
| "expand (Suc n) w =
     (let i = length w
      in expand n
           (w @ [word_rotl 1 (w ! (i - 3) XOR w ! (i - 8) XOR w ! (i - 14) XOR w ! (i - 16))]))"

type_synonym sha1_state = "32 word \<times> 32 word \<times> 32 word \<times> 32 word \<times> 32 word"

definition sha1_round :: "32 word list \<Rightarrow> nat \<Rightarrow> sha1_state \<Rightarrow> sha1_state" where
  "sha1_round w t s =
     (case s of (a, b, c, d, e) \<Rightarrow>
        let f = (if t < 20 then (b AND c) OR (NOT b AND d)
                 else if t < 40 then b XOR c XOR d
                 else if t < 60 then (b AND c) OR (b AND d) OR (c AND d)
                 else b XOR c XOR d);
            k = (if t < 20 then 0x5A827999 else if t < 40 then 0x6ED9EBA1
                 else if t < 60 then 0x8F1BBCDC else 0xCA62C1D6);
            temp = word_rotl 5 a + f + e + k + w ! t
        in (temp, a, word_rotl 30 b, c, d))"

definition sha1_block :: "sha1_state \<Rightarrow> 32 word list \<Rightarrow> sha1_state" where
  "sha1_block h blk =
     (case h of (h0, h1, h2, h3, h4) \<Rightarrow>
        case fold (sha1_round (expand 64 blk)) [0..<80] h of (a, b, c, d, e) \<Rightarrow>
          (h0 + a, h1 + b, h2 + c, h3 + d, h4 + e))"

definition hex_digit :: "nat \<Rightarrow> char" where
  "hex_digit n = (if n < 10 then char_of (48 + n) else char_of (87 + n))"

definition hex_word :: "32 word \<Rightarrow> string" where
  "hex_word w = map (\<lambda>i. hex_digit (unat (drop_bit (4 * (7 - i)) w AND 15))) [0..<8]"

definition sha1_hexdigest :: "string \<Rightarrow> string" where
  "sha1_hexdigest m =
     (case foldl sha1_block (0x67452301, 0xEFCDAB89, 0x98BADCFE, 0x10325476, 0xC3D2E1F0)
             (blocks16 (be_words (sha1_pad m))) of
        (h0, h1, h2, h3, h4) \<Rightarrow> concat (map hex_word [h0, h1, h2, h3, h4]))"

text \<open>\<^verbatim>\<open>_hash_key(*parts)\<close>\<close>

definition hash_key :: "string list \<Rightarrow> string" where
  "hash_key parts = sha1_hexdigest (join_parts parts)"

text \<open>Two different digest inputs with one digest.\<close>

definition sha1_collision :: "string \<Rightarrow> string \<Rightarrow> bool" where
  "sha1_collision a b = (a \<noteq> b \<and> sha1_hexdigest a = sha1_hexdigest b)"

text \<open>No part contains the separator.\<close>

definition sep_free :: "string list \<Rightarrow> bool" where
  "sep_free ps = list_all (\<lambda>p. CHR ''|'' \<notin> set p) ps"

text \<open>No part contains the separator, the part at position \<open>i\<close> left aside.\<close>

definition sep_free_but :: "nat \<Rightarrow> string list \<Rightarrow> bool" where
  "sep_free_but i ps = (sep_free (take i ps) \<and> sep_free (drop (Suc i) ps))"

text \<open>Two lists of parts of one length that differ at exactly one position.\<close>

definition one_differs :: "string list \<Rightarrow> string list \<Rightarrow> bool" where
  "one_differs ps qs =
     (length ps = length qs \<and> length (filter (\<lambda>pq. fst pq \<noteq> snd pq) (zip ps qs)) = 1)"

text \<open>
  The identity on 32-bit words, written through \<open>unat\<close>: evaluating it on a numeral
  brings the numeral below \<open>2^32\<close>.
\<close>

definition trunc32 :: "32 word \<Rightarrow> 32 word" where
  "trunc32 w = of_nat (unat w)"

section \<open>Query execution engine (app.py)\<close>

text \<open>
  The network is a script: the replies the backend gives to the requests the engine
  makes, in order, each with the time the round trip takes. A reply is an HTTP response
  or a failure of the transport; \<open>json\<close> is \<open>None\<close> when the body is not JSON.
  One request runs at a time: what other requests do at the awaits is not modelled.

  The engine of apigrail.py has the same loop and reads \<^verbatim>\<open>start\<close> at the same place;
  it differs in how it raises (\<^verbatim>\<open>raise_for_status\<close>, a \<^verbatim>\<open>KeyError\<close> for a missing member).
\<close>

record 'f response =
  status_code :: nat
  resp_text :: string
  json :: "'f body option"

datatype 'f reply = Transport_failure | Reply "'f response"

record 'f event =
  latency :: real
  reply :: "'f reply"

record config =
  dt_url :: string
  dt_token :: string
  org_bearer :: string
  query_timeout :: int
  raw_ttl :: int

text \<open>
  The \<^verbatim>\<open>while True\<close> loop. \<open>start\<close> and \<open>backoff\<close> are the loop's variables, \<open>now\<close>
  is the clock when the poll is sent. The result is the outcome, the clock at that
  moment and the replies not consumed; \<open>None\<close> when the script ends before the loop does.
\<close>

fun poll_loop ::
  "int \<Rightarrow> real \<Rightarrow> real \<Rightarrow> real \<Rightarrow> 'f event list \<Rightarrow>
   (('f error + 'f body) \<times> real \<times> 'f event list) option" where
  "poll_loop timeout_sec start backoff now [] = None"
| "poll_loop timeout_sec start backoff now (e # es) =
     (let t = now + latency e in
      case reply e of
        Transport_failure \<Rightarrow> Some (Inl TransportError, t, es)
      | Reply p \<Rightarrow>
          if status_code p \<ge> 400 then Some (Inl (PollRejected (status_code p) (resp_text p)), t, es)
          else
            (case json p of
               None \<Rightarrow> Some (Inl JSONDecodeError, t, es)
             | Some j \<Rightarrow>
                 if status j = Some ''SUCCEEDED'' then Some (Inr j, t, es)
                 else if status j = Some ''FAILED'' then Some (Inl (BackendFailed j), t, es)
                 else if t - start > of_int timeout_sec then Some (Inl Timeout, t, es)
                 else poll_loop timeout_sec start (min (backoff * 2) 1) (t + backoff) es))"

text \<open>
  \<^verbatim>\<open>grail_query(dql, _from, _to, timeout_sec)\<close> called at clock reading \<open>now\<close>. The first
  event of the script is the reply to the submission. The query and its range are the
  payload of the submission and decide nothing else in the engine.
\<close>

definition grail_query ::
  "config \<Rightarrow> string \<Rightarrow> string \<Rightarrow> string \<Rightarrow> int \<Rightarrow> real \<Rightarrow> 'f event list \<Rightarrow>
   (('f error + 'f body) \<times> real \<times> 'f event list) option" where
  "grail_query cfg dql from' to' timeout_sec now script =
     (if dt_url cfg = [] \<or> dt_token cfg = [] then Some (Inl NotConfigured, now, script)
      else
        (case script of
           [] \<Rightarrow> None
         | e # es \<Rightarrow>
             (let t = now + latency e in
              case reply e of
                Transport_failure \<Rightarrow> Some (Inl TransportError, t, es)
              | Reply r \<Rightarrow>
                  if status_code r \<ge> 400
                  then Some (Inl (SubmitRejected (status_code r) (resp_text r)), t, es)
                  else
                    (case json r of
                       None \<Rightarrow> Some (Inl JSONDecodeError, t, es)
                     | Some b \<Rightarrow>
                         (case jobId b of
                            None \<Rightarrow> Some (Inl NoJobId, t, es)
                          | Some job \<Rightarrow>
                              if job = [] then Some (Inl NoJobId, t, es)
                              else poll_loop timeout_sec t (1 / 4) t es)))))"

text \<open>
  A poll that keeps the loop going: a response below 400 whose JSON status is neither
  \<^verbatim>\<open>SUCCEEDED\<close> nor \<^verbatim>\<open>FAILED\<close>.
\<close>

definition pending :: "'f event \<Rightarrow> bool" where
  "pending e =
     (case reply e of
        Transport_failure \<Rightarrow> False
      | Reply p \<Rightarrow>
          status_code p < 400 \<and>
          (case json p of
             None \<Rightarrow> False
           | Some j \<Rightarrow> status j \<noteq> Some ''SUCCEEDED'' \<and> status j \<noteq> Some ''FAILED''))"

text \<open>
  The submission went through: the engine is configured, and the reply to the submission
  is below 400 and carries a job identifier.
\<close>

definition submitted :: "config \<Rightarrow> 'f event \<Rightarrow> bool" where
  "submitted cfg e =
     (dt_url cfg \<noteq> [] \<and> dt_token cfg \<noteq> [] \<and>
      (case reply e of
         Transport_failure \<Rightarrow> False
       | Reply r \<Rightarrow>
           status_code r < 400 \<and>
           (case json r of
              None \<Rightarrow> False
            | Some b \<Rightarrow> (case jobId b of None \<Rightarrow> False | Some job \<Rightarrow> job \<noteq> []))))"



section \<open>Request handlers (app.py)\<close>

definition is_space :: "char \<Rightarrow> bool" where
  "is_space c = ((of_char c :: nat) \<in> {9, 10, 11, 12, 13, 28, 29, 30, 31, 32})"

text \<open>
  \<^verbatim>\<open>s.strip()\<close>, on the whitespace of ASCII; the spaces of Unicode beyond ASCII
  (U+0085, U+00A0 and the like) are left in place here.
\<close>

definition strip :: "string \<Rightarrow> string" where
  "strip s = rev (dropWhile is_space (rev (dropWhile is_space s)))"

text \<open>
  \<^verbatim>\<open>_require_auth(auth_header)\<close>. After \<^verbatim>\<open>startswith("Bearer ")\<close> the first space is
  the seventh character, so \<^verbatim>\<open>split(" ", 1)[1]\<close> is the text after it.
\<close>

definition require_auth :: "config \<Rightarrow> string option \<Rightarrow> 'f error + unit" where
  "require_auth cfg auth_header =
     (if org_bearer cfg \<noteq> [] then
        (case auth_header of
           None \<Rightarrow> Inl Unauthorized
         | Some h \<Rightarrow>
             if h = [] \<or> take 7 h \<noteq> ''Bearer '' then Inl Unauthorized
             else if strip (drop 7 h) \<noteq> org_bearer cfg then Inl Forbidden
             else Inr ())
      else Inr ())"

text \<open>What the handlers return and what the one cache of the process holds.\<close>

datatype 'f cached =
    CTable "'f table_view"
  | CSeries "(int, 'f) series_view"
  | CRaw "'f body"

text \<open>The state a request runs in: the clock, the network and the global \<^verbatim>\<open>cache\<close>.\<close>

record 'f world =
  now :: real
  script :: "'f event list"
  cache :: "'f cached TTLCache"

text \<open>
  The part the three handlers share after the lookup missed: run the engine, shape, store.
  \<open>shape\<close> is the adapter; \<open>c\<close> is the cache as the lookup left it.
\<close>

definition run_and_store ::
  "config \<Rightarrow> string \<Rightarrow> string \<Rightarrow> string \<Rightarrow> string \<Rightarrow> ('f body \<Rightarrow> 'f error + 'f cached) \<Rightarrow>
   'f cached TTLCache \<Rightarrow> 'f world \<Rightarrow> (('f error + 'f cached) \<times> 'f world) option" where
  "run_and_store cfg cache_key dql from' to' shape c w =
     (case grail_query cfg dql from' to' (query_timeout cfg) (now w) (script w) of
        None \<Rightarrow> None
      | Some (Inl e, t, es) \<Rightarrow> Some (Inl e, \<lparr>now = t, script = es, cache = c\<rparr>)
      | Some (Inr j, t, es) \<Rightarrow>
          (case shape j of
             Inl e \<Rightarrow> Some (Inl e, \<lparr>now = t, script = es, cache = c\<rparr>)
           | Inr out \<Rightarrow>
               Some (Inr out, \<lparr>now = t, script = es, cache = cache_set c t cache_key out\<rparr>)))"

text \<open>\<^verbatim>\<open>cache.get(cache_key, ttl)\<close>, then the answer from the cache or \<open>run_and_store\<close>.\<close>

definition lookup_or_run ::
  "config \<Rightarrow> string \<Rightarrow> int \<Rightarrow> string \<Rightarrow> string \<Rightarrow> string \<Rightarrow> ('f body \<Rightarrow> 'f error + 'f cached) \<Rightarrow>
   'f world \<Rightarrow> (('f error + 'f cached) \<times> 'f world) option" where
  "lookup_or_run cfg cache_key ttl dql from' to' shape w =
     (case cache_get (cache w) (now w) cache_key ttl of
        (Some hit, c) \<Rightarrow> Some (Inr hit, w\<lparr>cache := c\<rparr>)
      | (None, c) \<Rightarrow> run_and_store cfg cache_key dql from' to' shape c w)"

text \<open>\<^verbatim>\<open>GET /table\<close>\<close>

definition table ::
  "config \<Rightarrow> string \<Rightarrow> string \<Rightarrow> string \<Rightarrow> string option \<Rightarrow> int \<Rightarrow> 'f world \<Rightarrow>
   (('f error + 'f cached) \<times> 'f world) option" where
  "table cfg dql from' to' authorization ttl w =
     (case require_auth cfg authorization of
        Inl e \<Rightarrow> Some (Inl e, w)
      | Inr u \<Rightarrow>
          lookup_or_run cfg (hash_key [''table'', dql, from', to']) ttl dql from' to'
            (\<lambda>j. Inr (CTable (to_grafana_table j))) w)"

text \<open>\<^verbatim>\<open>GET /timeseries\<close>; \<^verbatim>\<open>label or ""\<close> goes into the key.\<close>

definition timeseries ::
  "('f, 'dt) pylib \<Rightarrow> config \<Rightarrow> string \<Rightarrow> string \<Rightarrow> string \<Rightarrow> string \<Rightarrow> string \<Rightarrow> string option \<Rightarrow>
   string option \<Rightarrow> int \<Rightarrow> 'f world \<Rightarrow> (('f error + 'f cached) \<times> 'f world) option" where
  "timeseries lib cfg dql from' to' value timecol label authorization ttl w =
     (case require_auth cfg authorization of
        Inl e \<Rightarrow> Some (Inl e, w)
      | Inr u \<Rightarrow>
          lookup_or_run cfg
            (hash_key [''ts'', dql, from', to', value, timecol,
               (case label of None \<Rightarrow> [] | Some l \<Rightarrow> l)])
            ttl dql from' to'
            (\<lambda>j. map_sum id CSeries (to_grafana_timeseries lib j timecol value label)) w)"

text \<open>
  \<^verbatim>\<open>POST /query\<close>; the arguments are the members \<^verbatim>\<open>dql\<close>, \<^verbatim>\<open>from\<close> and \<^verbatim>\<open>to\<close> of the
  request body.
\<close>

definition raw_query ::
  "config \<Rightarrow> string option \<Rightarrow> string option \<Rightarrow> string option \<Rightarrow> string option \<Rightarrow> 'f world \<Rightarrow>
   (('f error + 'f cached) \<times> 'f world) option" where
  "raw_query cfg body_dql body_from body_to authorization w =
     (case require_auth cfg authorization of
        Inl e \<Rightarrow> Some (Inl e, w)
      | Inr u \<Rightarrow>
          (let from' = (case body_from of None \<Rightarrow> ''now()-1h'' | Some f \<Rightarrow> f);
               to' = (case body_to of None \<Rightarrow> ''now()'' | Some t \<Rightarrow> t)
           in case body_dql of
                None \<Rightarrow> Some (Inl MissingDql, w)
              | Some dql \<Rightarrow>
                  if dql = [] then Some (Inl MissingDql, w)
                  else lookup_or_run cfg (hash_key [''raw'', dql, from', to']) (raw_ttl cfg)
                         dql from' to' (\<lambda>j. Inr (CRaw j)) w))"

section \<open>An instance of the library, for running the code on examples\<close>

text \<open>
  The theorems below hold for every \<open>pylib\<close>. To run the code on concrete inputs the
  library is instantiated: \<^verbatim>\<open>datetime.fromisoformat\<close> on its classic grammar
  \<^verbatim>\<open>YYYY-MM-DD[*HH[:MM[:SS[.fff[fff]]]][+HH:MM]]\<close>, a local time zone that is UTC,
  exact arithmetic on timestamps, and the two infinite floats, whose arithmetic rounds
  nothing (\<^verbatim>\<open>json.loads\<close> reads them from \<^verbatim>\<open>Infinity\<close> and \<^verbatim>\<open>-Infinity\<close>).

  The instance is narrower than the library: Python 3.11 parses more strings than the
  classic grammar, \<^verbatim>\<open>int(dt.timestamp() * 1000)\<close> rounds in floats where microseconds are
  not zero, and the sort compares arrays with one another. The inputs of the examples
  below are outside these cases.
\<close>

record datetime =
  year :: nat
  month :: nat
  day :: nat
  hour :: nat
  minute :: nat
  second :: nat
  microsecond :: nat
  utcoffset :: "int option"

definition num :: "string \<Rightarrow> nat option" where
  "num s =
     (if s \<noteq> [] \<and> list_all (\<lambda>c. 48 \<le> (of_char c :: nat) \<and> (of_char c :: nat) \<le> 57) s
      then Some (foldl (\<lambda>a c. 10 * a + (of_char c - 48)) 0 s) else None)"

definition is_leap :: "nat \<Rightarrow> bool" where
  "is_leap y = (y mod 4 = 0 \<and> (y mod 100 \<noteq> 0 \<or> y mod 400 = 0))"

definition days_in_month :: "nat \<Rightarrow> nat \<Rightarrow> nat" where
  "days_in_month y m =
     (if m = 2 then (if is_leap y then 29 else 28)
      else if m = 4 \<or> m = 6 \<or> m = 9 \<or> m = 11 then 30 else 31)"

definition parse_date :: "string \<Rightarrow> (nat \<times> nat \<times> nat) option" where
  "parse_date s =
     (if length s = 10 \<and> s ! 4 = CHR ''-'' \<and> s ! 7 = CHR ''-'' then
        (case (num (take 4 s), num (take 2 (drop 5 s)), num (drop 8 s)) of
           (Some y, Some m, Some d) \<Rightarrow>
             if 1 \<le> y \<and> 1 \<le> m \<and> m \<le> 12 \<and> 1 \<le> d \<and> d \<le> days_in_month y m
             then Some (y, m, d) else None
         | _ \<Rightarrow> None)
      else None)"

text \<open>\<open>HH\<close>, \<open>HH:MM\<close>, \<open>HH:MM:SS\<close>, \<open>HH:MM:SS.fff\<close> or \<open>HH:MM:SS.ffffff\<close>.\<close>

definition parse_hms :: "string \<Rightarrow> (nat \<times> nat \<times> nat \<times> nat) option" where
  "parse_hms s =
     (let n = length s;
          h = num (take 2 s);
          mi = (if n = 2 then Some 0
                else if s ! 2 = CHR '':'' then num (take 2 (drop 3 s)) else None);
          sec = (if n \<le> 5 then Some 0
                 else if s ! 5 = CHR '':'' then num (take 2 (drop 6 s)) else None);
          us = (if n \<le> 8 then Some 0
                else if s ! 8 = CHR ''.'' then
                  map_option (\<lambda>f. if n = 12 then f * 1000 else f) (num (drop 9 s))
                else None)
      in if n \<in> {2, 5, 8, 12, 15} then
           (case (h, mi, sec, us) of
              (Some h', Some mi', Some sec', Some us') \<Rightarrow>
                if h' < 24 \<and> mi' < 60 \<and> sec' < 60 then Some (h', mi', sec', us') else None
            | _ \<Rightarrow> None)
         else None)"

text \<open>The offset \<open>HH:MM\<close> after the sign, in seconds.\<close>

definition parse_offset :: "string \<Rightarrow> nat option" where
  "parse_offset s =
     (if length s = 5 \<and> s ! 2 = CHR '':'' then
        (case (num (take 2 s), num (drop 3 s)) of
           (Some h, Some m) \<Rightarrow> if h < 24 \<and> m < 60 then Some (h * 3600 + m * 60) else None
         | _ \<Rightarrow> None)
      else None)"

text \<open>
  The time part after the separator: the offset starts at the first \<open>-\<close>, or at the
  first \<open>+\<close> when there is no \<open>-\<close>.
\<close>

definition parse_time :: "string \<Rightarrow> ((nat \<times> nat \<times> nat \<times> nat) \<times> int option) option" where
  "parse_time s =
     (let sign = (if CHR ''-'' \<in> set s then CHR ''-'' else CHR ''+'');
          hms = takeWhile (\<lambda>c. c \<noteq> sign) s;
          rest = dropWhile (\<lambda>c. c \<noteq> sign) s
      in case parse_hms hms of
           None \<Rightarrow> None
         | Some t \<Rightarrow>
             (case rest of
                [] \<Rightarrow> Some (t, None)
              | c # off \<Rightarrow>
                  (case parse_offset off of
                     None \<Rightarrow> None
                   | Some secs \<Rightarrow>
                       Some (t, Some (if c = CHR ''-'' then - int secs else int secs)))))"

definition fromisoformat_classic :: "string \<Rightarrow> datetime option" where
  "fromisoformat_classic s =
     (case parse_date (take 10 s) of
        None \<Rightarrow> None
      | Some (y, m, d) \<Rightarrow>
          if length s = 10 then
            Some \<lparr>year = y, month = m, day = d, hour = 0, minute = 0, second = 0,
                  microsecond = 0, utcoffset = None\<rparr>
          else
            (case parse_time (drop 11 s) of
               None \<Rightarrow> None
             | Some ((h, mi, sec, us), off) \<Rightarrow>
                 Some \<lparr>year = y, month = m, day = d, hour = h, minute = mi, second = sec,
                       microsecond = us, utcoffset = off\<rparr>))"

text \<open>Days from 1970-01-01 to a date of the proleptic Gregorian calendar.\<close>

definition days_from_civil :: "nat \<Rightarrow> nat \<Rightarrow> nat \<Rightarrow> int" where
  "days_from_civil y m d =
     (let y' = (if m \<le> 2 then int y - 1 else int y);
          era = y' div 400;
          yoe = y' - era * 400;
          doy = (153 * (if m > 2 then int m - 3 else int m + 9) + 2) div 5 + int d - 1;
          doe = yoe * 365 + yoe div 4 - yoe div 100 + doy
      in era * 146097 + doe - 719468)"

text \<open>
  \<^verbatim>\<open>int(dt.timestamp() * 1000)\<close>, computed exactly; a datetime without offset is local
  time, here UTC.
\<close>

definition epoch_ms_exact :: "datetime \<Rightarrow> int" where
  "epoch_ms_exact dt =
     (let secs = days_from_civil (year dt) (month dt) (day dt) * 86400
                 + int (hour dt) * 3600 + int (minute dt) * 60 + int (second dt)
                 - (case utcoffset dt of None \<Rightarrow> 0 | Some off \<Rightarrow> off);
          us = secs * 1000000 + int (microsecond dt)
      in if us < 0 then - ((- us) div 1000) else us div 1000)"

datatype xfloat = PosInf | NegInf

text \<open>
  The order of the keys that the sort of apigrail.py can compare in this instance:
  integers between the two infinities.
\<close>

fun sort_rank :: "xfloat jv \<Rightarrow> (nat \<times> int) option" where
  "sort_rank (VFloat NegInf) = Some (0, 0)"
| "sort_rank (VInt i) = Some (1, i)"
| "sort_rank (VFloat PosInf) = Some (2, 0)"
| "sort_rank v = None"

definition sort_ranked :: "(xfloat jv \<times> xfloat jv) list \<Rightarrow> xfloat error + (xfloat jv \<times> xfloat jv) list" where
  "sort_ranked pts =
     (if list_all (\<lambda>p. sort_rank (fst p) \<noteq> None) pts
      then Inr (sort_key (\<lambda>p. the (sort_rank (fst p))) pts)
      else Inl TypeError)"

definition pylib0 :: "(xfloat, datetime) pylib" where
  "pylib0 =
     \<lparr>fl_times_1000 = (\<lambda>f. f),
      fl_lt_1e12 = (\<lambda>f. f = NegInf),
      fl_int = (\<lambda>f. Inl OverflowError),
      fl_str = (\<lambda>f. if f = NegInf then ''-inf'' else ''inf''),
      fromisoformat = fromisoformat_classic,
      replace_utc = (\<lambda>dt. dt\<lparr>utcoffset := Some 0\<rparr>),
      epoch_ms = (\<lambda>dt. Inr (epoch_ms_exact dt)),
      sort_mixed = sort_ranked\<rparr>"

section \<open>Notions of the statements\<close>

text \<open>A column name with a time-like substring, whatever the case of its letters.\<close>

definition time_like :: "string \<Rightarrow> bool" where
  "time_like k = contains ''time'' (lower k)"

text \<open>A record that misses a field: its normalized timestamp or its value is \<open>None\<close>.\<close>

definition incomplete :: "('f, 'dt) pylib \<Rightarrow> string \<Rightarrow> string \<Rightarrow> 'f rec \<Rightarrow> bool" where
  "incomplete lib timecol value r =
     (to_epoch_ms lib (get r timecol) = Inr None \<or> get r value = VNone)"

text \<open>The points of a frame: its \<open>Time\<close> values paired with its \<open>Value\<close> values.\<close>

definition points :: "('t, 'f) frame \<Rightarrow> ('t \<times> 'f jv) list" where
  "points f = zip (time_values f) (value_values f)"

text \<open>All the points of the dict \<^verbatim>\<open>series\<close>.\<close>

definition all_points :: "(string \<times> 'p list) list \<Rightarrow> 'p list" where
  "all_points series = concat (map snd series)"

text \<open>The handler's lookup under \<open>key\<close> finds nothing it may return.\<close>

definition lookup_missed :: "'f world \<Rightarrow> string \<Rightarrow> int \<Rightarrow> bool" where
  "lookup_missed w key ttl = (fst (cache_get (cache w) (now w) key ttl) = None)"

text \<open>
  The state after a request whose engine run ended at clock \<open>t\<close> with the replies \<open>es\<close>
  left, and which stored nothing: the cache has lost the entry of \<open>key\<close>, if it had one.
\<close>

definition after_failure :: "'f world \<Rightarrow> real \<Rightarrow> 'f event list \<Rightarrow> string \<Rightarrow> 'f world" where
  "after_failure w t es key =
     \<lparr>now = t, script = es, cache = (cache w)\<lparr>store := dict_pop key (store (cache w))\<rparr>\<rparr>"

section \<open>Example states\<close>

text \<open>A cache of capacity two that is full: \<open>b\<close> is older than \<open>a\<close>.\<close>

definition cache0 :: "nat TTLCache" where
  "cache0 = \<lparr>max_items = 2,
     store = [(''a'', \<lparr>val = 1, ts = 5\<rparr>), (''b'', \<lparr>val = 2, ts = 3\<rparr>)]\<rparr>"


text \<open>A configured proxy, and the replies of a backend.\<close>

definition cfg0 :: config where
  "cfg0 = \<lparr>dt_url = ''https://dt'', dt_token = ''tok'', org_bearer = [],
     query_timeout = 30, raw_ttl = 15\<rparr>"

definition ok_reply :: "real \<Rightarrow> string option \<Rightarrow> string option \<Rightarrow> xfloat event" where
  "ok_reply lat job st =
     \<lparr>latency = lat,
      reply = Reply \<lparr>status_code = 200, resp_text = [],
                     json = Some \<lparr>jobId = job, status = st, records = None\<rparr>\<rparr>\<rparr>"


text \<open>A submission that takes 2 seconds, then polls of half a second that find the job running.\<close>

definition never_done :: "xfloat event list" where
  "never_done =
     [ok_reply 2 (Some ''job-2'') None,
      ok_reply (1 / 2) None (Some ''RUNNING''),
      ok_reply (1 / 2) None (Some ''RUNNING''),
      ok_reply (1 / 2) None (Some ''RUNNING'')]"

text \<open>A request at clock 100 with an empty cache, to a backend that never finishes.\<close>

definition world1 :: "xfloat world" where
  "world1 = \<lparr>now = 100, script = never_done, cache = \<lparr>max_items = 512, store = []\<rparr>\<rparr>"

text \<open>
  A request at clock 100 to a backend that rejects the submission; the cache holds a
  table for the same request, stored at clock 0.
\<close>

definition world0 :: "xfloat world" where
  "world0 =
     \<lparr>now = 100,
      script = [\<lparr>latency = 1,
                 reply = Reply \<lparr>status_code = 503, resp_text = ''unavailable'', json = None\<rparr>\<rparr>],
      cache = \<lparr>max_items = 512,
               store = [(hash_key [''table'', ''q'', ''a'', ''b''],
                         \<lparr>val = CTable \<lparr>tschema = ''grafana-table'', columns = [], rows = []\<rparr>,
                          ts = 0\<rparr>)]\<rparr>\<rparr>"

text \<open>The same proxy with an execution timeout of one second.\<close>

definition cfg1 :: config where
  "cfg1 = cfg0\<lparr>query_timeout := 1\<rparr>"

section \<open>The timestamp normalizer: scaling and unusable inputs\<close>

text \<open>
  For integers the two normalizations agree from \<open>10^9\<close> on (and at zero): below, the
  input times 1000 is still below \<open>10^12\<close> and is scaled once more.
\<close>

lemma to_epoch_ms_int_scale:
  "t < 10 ^ 12 \<Longrightarrow>
   (to_epoch_ms lib (VInt (t * 1000)) = to_epoch_ms lib (VInt t)) = (10 ^ 9 \<le> t \<or> t = 0)"
  by auto

lemma apigrail_normalize_int_scale:
  "t < 10 ^ 12 \<Longrightarrow> 10 ^ 9 \<le> t \<Longrightarrow>
   apigrail_normalize lib (VInt (t * 1000)) = apigrail_normalize lib (VInt t)"
  by auto

text \<open>
  C1, as the code has it: for a numeric \<open>t\<close> below \<open>10^12\<close> whose product \<open>t * 1000\<close>
  is not below \<open>10^12\<close> (an integer from \<open>10^9\<close> on), normalizing \<open>t\<close> and normalizing
  \<open>t * 1000\<close> give the same result in app.py. The inline normalization of apigrail.py
  agrees on the two when \<open>t\<close> is not a float; a float product at or above \<open>10^12\<close> it
  keeps as the float it is, where \<open>t\<close> itself gives the truncated integer.
\<close>

theorem to_epoch_ms_scale:
  assumes "is_numeric t" and "lt_1e12 lib t" and "\<not> lt_1e12 lib (times_1000 lib t)"
  shows "to_epoch_ms lib (times_1000 lib t) = to_epoch_ms lib t \<and>
         (\<not> is_float t \<longrightarrow>
            apigrail_normalize lib (times_1000 lib t) = apigrail_normalize lib t) \<and>
         (\<forall>f. t = VFloat f \<longrightarrow>
            apigrail_normalize lib (times_1000 lib t) = Inr (VFloat (fl_times_1000 lib f)) \<and>
            apigrail_normalize lib t = map_sum id VInt (fl_int lib (fl_times_1000 lib f)))"
  using assms by (cases t) (auto split: if_splits)

theorem to_epoch_ms_scale_witness:
  "is_numeric (VInt 1704067260 :: xfloat jv) \<and> lt_1e12 pylib0 (VInt 1704067260) \<and>
   \<not> lt_1e12 pylib0 (times_1000 pylib0 (VInt 1704067260)) \<and>
   \<not> is_float (VInt 1704067260 :: xfloat jv) \<and>
   to_epoch_ms pylib0 (times_1000 pylib0 (VInt 1704067260)) = Inr (Some 1704067260000) \<and>
   to_epoch_ms pylib0 (VInt 1704067260) = Inr (Some 1704067260000) \<and>
   apigrail_normalize pylib0 (times_1000 pylib0 (VInt 1704067260)) = Inr (VInt 1704067260000) \<and>
   apigrail_normalize pylib0 (VInt 1704067260) = Inr (VInt 1704067260000)"
  using to_epoch_ms_scale [of "VInt 1704067260" pylib0] by simp

text \<open>
  C1 as stated fails at \<open>t = 1\<close>, in app.py and in apigrail.py alike: one second becomes
  1000 ms, and 1000 is taken for seconds again and becomes 1000000 ms.
\<close>

theorem to_epoch_ms_scale_counterexample:
  "is_numeric (VInt 1 :: xfloat jv) \<and> lt_1e12 pylib0 (VInt 1) \<and>
   to_epoch_ms pylib0 (VInt 1) = Inr (Some 1000) \<and>
   to_epoch_ms pylib0 (times_1000 pylib0 (VInt 1)) = Inr (Some 1000000) \<and>
   apigrail_normalize pylib0 (VInt 1) = Inr (VInt 1000) \<and>
   apigrail_normalize pylib0 (times_1000 pylib0 (VInt 1)) = Inr (VInt 1000000)"
  by simp

lemma not_a_date: "fromisoformat_classic ''not-a-date'' = None"
  by (simp add: fromisoformat_classic_def parse_date_def)

lemma month_13: "fromisoformat_classic ''2024-13-01T00:00:00+00:00'' = None"
  by (simp add: fromisoformat_classic_def parse_date_def num_def)

text \<open>
  C2, as the code has it: an input that is neither a number (a bool is one) nor a string
  gives \<open>None\<close>; a string on which the full parse and the fallback parse both fail makes
  the normalizer raise \<^verbatim>\<open>ValueError\<close>, out of the \<^verbatim>\<open>except\<close> branch.
\<close>

theorem to_epoch_ms_unusable:
  "(\<not> is_numeric v \<and> \<not> is_string v \<longrightarrow> to_epoch_ms lib v = Inr None) \<and>
   (fromisoformat lib (replace_Z s) = None \<and>
    fromisoformat lib (split_dot_head (replace_Z s)) = None \<longrightarrow>
      to_epoch_ms lib (VStr s) = Inl ValueError)"
  by (cases v) auto

theorem to_epoch_ms_unusable_witness:
  "\<not> is_numeric (VOther ''[1, 2]'' :: xfloat jv) \<and> \<not> is_string (VOther ''[1, 2]'' :: xfloat jv) \<and>
   to_epoch_ms pylib0 (VOther ''[1, 2]'') = Inr None \<and>
   fromisoformat pylib0 (replace_Z ''2024-13-01T00:00:00Z'') = None \<and>
   fromisoformat pylib0 (split_dot_head (replace_Z ''2024-13-01T00:00:00Z'')) = None \<and>
   to_epoch_ms pylib0 (VStr ''2024-13-01T00:00:00Z'') = Inl ValueError"
  using to_epoch_ms_unusable [of "VOther ''[1, 2]''" pylib0 "''2024-13-01T00:00:00Z''"]
  by (simp add: pylib0_def replace_Z_def split_dot_head_def month_13)

text \<open>
  C2 as stated fails at the string \<open>not-a-date\<close>: both parses fail, and the normalizer
  raises instead of returning \<open>None\<close>.
\<close>

theorem to_epoch_ms_unusable_counterexample:
  "fromisoformat pylib0 (replace_Z ''not-a-date'') = None \<and>
   fromisoformat pylib0 (split_dot_head (replace_Z ''not-a-date'')) = None \<and>
   to_epoch_ms pylib0 (VStr ''not-a-date'') = Inl ValueError \<and>
   to_epoch_ms pylib0 (VStr ''not-a-date'') \<noteq> Inr None"
  by (simp add: pylib0_def replace_Z_def split_dot_head_def not_a_date)

section \<open>The TTL cache\<close>

lemma map_of_dict_pop: "map_of (dict_pop k d) k' = (if k' = k then None else map_of d k')"
  by (induction d) (auto simp: dict_pop_def)

lemma keys_dict_set:
  "map fst (dict_set k v d) = (if k \<in> set (map fst d) then map fst d else map fst d @ [k])"
  by (induction d) force+

lemma map_of_dict_set: "map_of (dict_set k v d) k' = (if k' = k then Some v else map_of d k')"
  by (induction d) auto

lemma distinct_dict_set: "distinct (map fst d) \<Longrightarrow> distinct (map fst (dict_set k v d))"
  by (simp add: keys_dict_set)

lemma distinct_dict_pop: "distinct (map fst d) \<Longrightarrow> distinct (map fst (dict_pop k d))"
  by (simp add: dict_pop_def distinct_map_filter)

lemma length_dict_pop:
  "distinct (map fst d) \<Longrightarrow> k \<in> set (map fst d) \<Longrightarrow> length (dict_pop k d) + 1 = length d"
proof (induction d)
  case Nil
  then show ?case by simp
next
  case (Cons p d)
  show ?case
  proof (cases "fst p = k")
    case True
    with Cons.prems have "k \<notin> fst ` set d" by auto
    then have "filter (\<lambda>q. fst q \<noteq> k) d = d" by (auto simp: filter_id_conv)
    with True show ?thesis by (simp add: dict_pop_def)
  next
    case False
    with Cons show ?thesis by (auto simp: dict_pop_def)
  qed
qed

lemma min_by_ts_mem: "min_by_ts m ps \<in> set (m # ps)"
  by (induction ps arbitrary: m) auto

lemma min_by_ts_le: "p \<in> set (m # ps) \<Longrightarrow> ts (snd (min_by_ts m ps)) \<le> ts (snd p)"
proof (induction ps arbitrary: m p)
  case Nil
  then show ?case by simp
next
  case (Cons q ps)
  have le_m: "ts (snd (min_by_ts (if ts (snd q) < ts (snd m) then q else m) ps))
      \<le> ts (snd (if ts (snd q) < ts (snd m) then q else m))"
    by (rule Cons.IH) simp
  from Cons.prems consider "p = m" | "p = q" | "p \<in> set ps" by auto
  then show ?case
  proof cases
    case 1
    with le_m show ?thesis by (auto split: if_splits)
  next
    case 2
    with le_m show ?thesis by (auto split: if_splits)
  next
    case 3
    have "ts (snd (min_by_ts (if ts (snd q) < ts (snd m) then q else m) ps)) \<le> ts (snd p)"
      by (rule Cons.IH) (simp add: 3)
    then show ?thesis by simp
  qed
qed

text \<open>The cache starts empty, and its operations keep each key once.\<close>

lemma wf_cache_empty: "wf_cache \<lparr>max_items = n, store = []\<rparr>"
  by (simp add: wf_cache_def)

lemma wf_cache_insert: "wf_cache c \<Longrightarrow> wf_cache (cache_insert c t key v)"
  by (simp add: wf_cache_def cache_insert_def distinct_dict_set)

lemma store_evict_if_needed:
  "store c = p # ps \<Longrightarrow> length (store c) > max_items c \<Longrightarrow>
   store (evict_if_needed c) = dict_pop (fst (min_by_ts p ps)) (store c)"
  by (simp add: evict_if_needed_def)

lemma wf_evict_if_needed: "wf_cache c \<Longrightarrow> wf_cache (evict_if_needed c)"
  by (cases "store c") (simp_all add: wf_cache_def evict_if_needed_def distinct_dict_pop)

lemma wf_cache_set: "wf_cache c \<Longrightarrow> wf_cache (cache_set c t key v)"
  by (simp add: cache_set_def wf_evict_if_needed wf_cache_insert)

lemma wf_cache_get: "wf_cache c \<Longrightarrow> wf_cache (snd (cache_get c t key ttl))"
  by (auto simp: wf_cache_def cache_get_def distinct_dict_pop split: option.splits)

lemma cache_set_within_capacity:
  "length (store (cache_insert c t key v)) \<le> max_items c \<Longrightarrow>
   cache_set c t key v = cache_insert c t key v"
  by (simp add: cache_set_def evict_if_needed_def cache_insert_def)

text \<open>
  C6: a \<^verbatim>\<open>set\<close> that takes the store beyond its capacity evicts exactly one entry;
  no entry of the store is older than the evicted one, so no newer entry goes before an
  older one.
\<close>

theorem cache_set_evicts_oldest:
  assumes wf: "wf_cache c"
    and over: "length (store (cache_insert c t key v)) > max_items c"
  shows "\<exists>k e. map_of (store (cache_insert c t key v)) k = Some e \<and>
           store (cache_set c t key v) = dict_pop k (store (cache_insert c t key v)) \<and>
           length (store (cache_set c t key v)) + 1 = length (store (cache_insert c t key v)) \<and>
           (\<forall>p \<in> set (store (cache_insert c t key v)). ts e \<le> ts (snd p))"
proof -
  define d where "d = store (cache_insert c t key v)"
  have dist: "distinct (map fst d)"
    using wf_cache_insert [OF wf] by (simp add: wf_cache_def d_def)
  from over obtain p ps where d: "d = p # ps"
    by (cases d) (auto simp: d_def cache_insert_def)
  define m where "m = min_by_ts p ps"
  have mem: "m \<in> set d" unfolding m_def d by (rule min_by_ts_mem)
  have le: "\<forall>q \<in> set d. ts (snd m) \<le> ts (snd q)"
    unfolding m_def d using min_by_ts_le by blast
  have look: "map_of d (fst m) = Some (snd m)"
    using dist mem by (simp add: map_of_eq_Some_iff)
  have st: "store (cache_set c t key v) = dict_pop (fst m) d"
    unfolding cache_set_def m_def using store_evict_if_needed [of "cache_insert c t key v" p ps] over d
    by (simp add: d_def cache_insert_def)
  have len: "length (dict_pop (fst m) d) + 1 = length d"
    using dist mem by (intro length_dict_pop) auto
  show ?thesis
    unfolding d_def [symmetric] using look st len le by (intro exI [of _ "fst m"] exI [of _ "snd m"]) simp
qed

theorem cache_set_evicts_oldest_witness:
  "wf_cache cache0 \<and> length (store (cache_insert cache0 9 ''c'' 3)) > max_items cache0 \<and>
   store (cache_set cache0 9 ''c'' 3) =
     [(''a'', \<lparr>val = 1, ts = 5\<rparr>), (''c'', \<lparr>val = 3, ts = 9\<rparr>)] \<and>
   store (cache_set cache0 9 ''c'' 3) = dict_pop ''b'' (store (cache_insert cache0 9 ''c'' 3))"
  using cache_set_evicts_oldest [of cache0 9 "''c''" 3]
  by (simp add: cache0_def wf_cache_def cache_insert_def cache_set_def evict_if_needed_def
      dict_pop_def)

text \<open>
  C7: a \<^verbatim>\<open>get\<close> returns a value only from an entry whose age is within the caller's
  \<open>ttl\<close>; an entry that is older is a miss, and that same \<^verbatim>\<open>get\<close> removes it.
\<close>

theorem cache_get_fresh:
  assumes "cache_get c t key ttl = (r, c')"
  shows "(\<forall>v. r = Some v \<longrightarrow>
            (\<exists>e. map_of (store c) key = Some e \<and> val e = v \<and> \<not> t - ts e > of_int ttl)) \<and>
         (\<forall>e. map_of (store c) key = Some e \<and> t - ts e > of_int ttl \<longrightarrow>
            r = None \<and> store c' = dict_pop key (store c) \<and> map_of (store c') key = None)"
  using assms by (auto simp: cache_get_def map_of_dict_pop split: option.splits if_splits)

theorem cache_get_fresh_witness:
  "cache_get cache0 40 ''a'' 30 = (None, cache0\<lparr>store := [(''b'', \<lparr>val = 2, ts = 3\<rparr>)]\<rparr>) \<and>
   map_of (store cache0) ''a'' = Some \<lparr>val = 1, ts = 5\<rparr> \<and>
   (40 :: real) - ts \<lparr>val = 1 :: nat, ts = 5\<rparr> > of_int 30 \<and>
   cache_get cache0 30 ''a'' 30 = (Some 1, cache0)"
  using cache_get_fresh [of cache0 40 "''a''" 30 None "cache0\<lparr>store := [(''b'', \<lparr>val = 2, ts = 3\<rparr>)]\<rparr>"]
  by (simp add: cache0_def cache_get_def dict_pop_def)

section \<open>The table adapter\<close>

lemma sorted_map_Pair: "sorted xs \<Longrightarrow> sorted (map (Pair (c::nat)) (xs :: string list))"
  by (induction xs) (auto simp: less_eq_prod_def)

lemma col_sort_key_time_like:
  "col_sort_key k = (if time_like k then (0, k) else (1, k))"
  by (auto simp: col_sort_key_def time_like_def lower_def lower_char_def)

lemma sort_time_first:
  "sort_key col_sort_key ks = sort (filter time_like ks) @ sort (filter (\<lambda>k. \<not> time_like k) ks)"
proof (rule sort_key_inj_key_eq)
  show "mset ks = mset (sort (filter time_like ks) @ sort (filter (\<lambda>k. \<not> time_like k) ks))"
    by simp
  show "inj_on col_sort_key (set ks)"
    by (rule inj_onI) (auto simp: col_sort_key_time_like split: if_splits)
  have a: "map col_sort_key (sort (filter time_like ks)) = map (Pair 0) (sort (filter time_like ks))"
    by (rule map_cong) (auto simp: col_sort_key_time_like)
  have b: "map col_sort_key (sort (filter (\<lambda>k. \<not> time_like k) ks))
      = map (Pair 1) (sort (filter (\<lambda>k. \<not> time_like k) ks))"
    by (rule map_cong) (auto simp: col_sort_key_time_like)
  show "sorted (map col_sort_key (sort (filter time_like ks) @ sort (filter (\<lambda>k. \<not> time_like k) ks)))"
    unfolding map_append a b
    by (auto simp: sorted_append sorted_map_Pair less_eq_prod_def)
qed

text \<open>
  The table adapter of app.py puts first the names with a time-like substring, in
  lexicographic order, and then the other names, in lexicographic order. Every row is as
  wide as the list of columns.
\<close>

lemma to_grafana_table_columns:
  "columns (to_grafana_table j) =
     sort (filter time_like (all_keys (records_of j))) @
     sort (filter (\<lambda>k. \<not> time_like k) (all_keys (records_of j)))"
  by (simp add: to_grafana_table_def Let_def sort_time_first)

lemma to_grafana_table_row_width:
  "\<forall>row \<in> set (rows (to_grafana_table j)). length row = length (columns (to_grafana_table j))"
  by (simp add: to_grafana_table_def Let_def)

text \<open>
  C9 holds for the table adapter of app.py (\<open>to_grafana_table_columns\<close>) and fails for
  the one of apigrail.py, which sorts the names and nothing more: on one record with the
  fields \<open>a\<close> and \<open>time\<close> its columns are \<open>a\<close>, \<open>time\<close>, where app.py gives
  \<open>time\<close>, \<open>a\<close>.
\<close>

theorem apigrail_table_not_time_first:
  "columns (apigrail_to_grafana_table
      \<lparr>jobId = None, status = Some ''SUCCEEDED'',
       records = Some [[(''a'', VInt 1), (''time'', VInt 2)]]\<rparr>) = [''a'', ''time''] \<and>
   columns (to_grafana_table
      \<lparr>jobId = None, status = Some ''SUCCEEDED'',
       records = Some [[(''a'', VInt 1), (''time'', VInt 2)]]\<rparr>) = [''time'', ''a''] \<and>
   time_like ''time'' \<and> \<not> time_like ''a''"
  by code_simp

section \<open>The timeseries adapter\<close>

lemma set_all_points_append:
  "set (all_points (series_append key pt series)) = insert pt (set (all_points series))"
  by (induction key pt series rule: series_append.induct) (auto simp: all_points_def)

lemma length_all_points_append:
  "length (all_points (series_append key pt series)) = Suc (length (all_points series))"
  by (induction key pt series rule: series_append.induct) (auto simp: all_points_def)

lemma group_records_filter:
  "group_records lib timecol value label recs series = Inr out \<Longrightarrow>
   group_records lib timecol value label
     (filter (\<lambda>r. \<not> incomplete lib timecol value r) recs) series = Inr out"
proof (induction recs arbitrary: series)
  case Nil
  then show ?case by simp
next
  case (Cons r rs)
  then show ?case
    by (auto simp: incomplete_def Let_def split: sum.splits option.splits if_splits)
qed

lemma group_records_points:
  "group_records lib timecol value label recs series = Inr out \<Longrightarrow>
   pt \<in> set (all_points out) \<Longrightarrow>
   pt \<in> set (all_points series) \<or>
   (\<exists>r \<in> set recs. to_epoch_ms lib (get r timecol) = Inr (Some (fst pt)) \<and>
      get r value = snd pt \<and> snd pt \<noteq> VNone)"
proof (induction recs arbitrary: series)
  case Nil
  then show ?case by simp
next
  case (Cons r rs)
  show ?case
  proof (cases "to_epoch_ms lib (get r timecol)")
    case (Inl e)
    with Cons.prems show ?thesis by simp
  next
    case (Inr topt)
    show ?thesis
    proof (cases "topt = None \<or> get r value = VNone")
      case True
      with Inr Cons.prems have "group_records lib timecol value label rs series = Inr out"
        by (auto simp: Let_def split: option.splits)
      from Cons.IH [OF this Cons.prems(2)] show ?thesis by auto
    next
      case False
      then obtain t where t: "topt = Some t" and v: "get r value \<noteq> VNone" by auto
      with Inr Cons.prems have
        "group_records lib timecol value label rs
           (series_append (group_key lib label r) (t, get r value) series) = Inr out"
        by (simp add: Let_def)
      from Cons.IH [OF this Cons.prems(2)] show ?thesis
        using Inr t v by (auto simp: set_all_points_append)
    qed
  qed
qed

lemma group_records_count:
  "group_records lib timecol value label recs series = Inr out \<Longrightarrow>
   length (all_points out) =
     length (all_points series) + length (filter (\<lambda>r. \<not> incomplete lib timecol value r) recs)"
proof (induction recs arbitrary: series)
  case Nil
  then show ?case by simp
next
  case (Cons r rs)
  then show ?case
    by (auto simp: incomplete_def Let_def length_all_points_append
        split: sum.splits option.splits if_splits)
qed

lemma points_make_frame: "points (make_frame kp) = sort_key fst (snd kp)"
  by (simp add: points_def make_frame_def Let_def zip_map_fst_snd)

lemma set_points_frames:
  "(\<exists>f \<in> set (map make_frame series). pt \<in> set (points f)) = (pt \<in> set (all_points series))"
  by (auto simp: points_make_frame all_points_def)

text \<open>
  The timeseries adapter of app.py drops the incomplete records. Its output is the output
  on the records that are left when they are removed, and every point it emits is the
  normalized timestamp and the value of a record that misses neither.
\<close>

lemma to_grafana_timeseries_drops_incomplete:
  assumes "to_grafana_timeseries lib j timecol value label = Inr view"
  shows "to_grafana_timeseries lib
           (j\<lparr>records := Some (filter (\<lambda>r. \<not> incomplete lib timecol value r) (records_of j))\<rparr>)
           timecol value label = Inr view"
    and "\<forall>f \<in> set (frames view). \<forall>pt \<in> set (points f).
           \<exists>r \<in> set (records_of j). \<not> incomplete lib timecol value r \<and>
             to_epoch_ms lib (get r timecol) = Inr (Some (fst pt)) \<and> get r value = snd pt"
proof -
  from assms obtain series where
    g: "group_records lib timecol value label (records_of j) [] = Inr series"
    and view: "view = \<lparr>sschema = ''grafana-timeseries'', frames = map make_frame series\<rparr>"
    by (auto simp: to_grafana_timeseries_def split: sum.splits)
  from group_records_filter [OF g] show "to_grafana_timeseries lib
           (j\<lparr>records := Some (filter (\<lambda>r. \<not> incomplete lib timecol value r) (records_of j))\<rparr>)
           timecol value label = Inr view"
    by (simp add: to_grafana_timeseries_def view records_of_def)
  show "\<forall>f \<in> set (frames view). \<forall>pt \<in> set (points f).
           \<exists>r \<in> set (records_of j). \<not> incomplete lib timecol value r \<and>
             to_epoch_ms lib (get r timecol) = Inr (Some (fst pt)) \<and> get r value = snd pt"
  proof (intro ballI)
    fix f pt
    assume "f \<in> set (frames view)" and "pt \<in> set (points f)"
    then have "pt \<in> set (all_points series)"
      using set_points_frames [of series pt] by (auto simp: view)
    from group_records_points [OF g this] obtain r where
      r: "r \<in> set (records_of j)" "to_epoch_ms lib (get r timecol) = Inr (Some (fst pt))"
        "get r value = snd pt" "snd pt \<noteq> VNone"
      by (auto simp: all_points_def)
    then have "\<not> incomplete lib timecol value r"
      by (simp add: incomplete_def)
    with r show
      "\<exists>r \<in> set (records_of j). \<not> incomplete lib timecol value r \<and>
             to_epoch_ms lib (get r timecol) = Inr (Some (fst pt)) \<and> get r value = snd pt"
      by blast
  qed
qed

text \<open>
  C3 holds for the timeseries adapter of app.py (\<open>to_grafana_timeseries_drops_incomplete\<close>)
  and fails for the one of apigrail.py, which has no such filter: a record with a
  timestamp and no value field becomes a point whose value is \<open>None\<close>, where app.py
  emits no point.
\<close>

theorem apigrail_timeseries_keeps_incomplete:
  "apigrail_to_grafana_timeseries lib
     \<lparr>jobId = None, status = Some ''SUCCEEDED'',
      records = Some [[(''timestamp'', VInt 1704067260)]]\<rparr> ''timestamp'' ''v'' None =
     Inr \<lparr>sschema = ''grafana-timeseries'',
          frames = [\<lparr>name = ''series'', time_values = [VInt 1704067260000],
                     value_values = [VNone]\<rparr>]\<rparr> \<and>
   to_grafana_timeseries lib
     \<lparr>jobId = None, status = Some ''SUCCEEDED'',
      records = Some [[(''timestamp'', VInt 1704067260)]]\<rparr> ''timestamp'' ''v'' None =
     Inr \<lparr>sschema = ''grafana-timeseries'', frames = []\<rparr>"
  by (simp add: apigrail_to_grafana_timeseries_def to_grafana_timeseries_def records_of_def
      group_key_def get_def apigrail_sort_def)

lemma apigrail_sort_sorted:
  "list_all (\<lambda>p. is_VInt (fst p)) pts \<Longrightarrow> apigrail_sort lib pts = Inr sp \<Longrightarrow>
   sorted (map (\<lambda>p. int_of (fst p)) sp)"
proof (cases "length pts \<le> 1")
  case True
  assume "apigrail_sort lib pts = Inr sp"
  with True have "sp = pts" by (simp add: apigrail_sort_def)
  with True show ?thesis by (cases pts) auto
next
  case False
  assume "list_all (\<lambda>p. is_VInt (fst p)) pts" and "apigrail_sort lib pts = Inr sp"
  with False have "sp = sort_key (\<lambda>p. int_of (fst p)) pts" by (simp add: apigrail_sort_def)
  then show ?thesis by (simp only: sorted_sort_key)
qed





section \<open>The cache key deriver\<close>

lemma append_sep_eq:
  "c \<notin> set p \<Longrightarrow> c \<notin> set q \<Longrightarrow> p @ c # r = q @ c # s \<Longrightarrow> p = q \<and> r = s"
proof (induction p arbitrary: q)
  case Nil
  then show ?case by (cases q) auto
next
  case (Cons a p)
  then show ?case by (cases q) auto
qed

lemma sep_free_Cons: "sep_free (p # ps) = (CHR ''|'' \<notin> set p \<and> sep_free ps)"
  by (simp add: sep_free_def)

lemma join_parts_Cons: "ps \<noteq> [] \<Longrightarrow> join_parts (p # ps) = p @ CHR ''|'' # join_parts ps"
  by (cases ps) auto

lemma join_parts_inj:
  "ps \<noteq> [] \<Longrightarrow> qs \<noteq> [] \<Longrightarrow> sep_free ps \<Longrightarrow> sep_free qs \<Longrightarrow>
   join_parts ps = join_parts qs \<Longrightarrow> ps = qs"
proof (induction ps arbitrary: qs)
  case Nil
  then show ?case by simp
next
  case (Cons p ps)
  from Cons.prems obtain q qs' where qs: "qs = q # qs'" by (cases qs) auto
  from Cons.prems qs have p: "CHR ''|'' \<notin> set p" and q: "CHR ''|'' \<notin> set q"
    and sps: "sep_free ps" and sqs: "sep_free qs'"
    by (simp_all add: sep_free_Cons)
  show ?case
  proof (cases "ps = []")
    case True
    show ?thesis
    proof (cases "qs' = []")
      case True
      with \<open>ps = []\<close> Cons.prems qs show ?thesis by simp
    next
      case False
      with True Cons.prems(5) qs have "p = q @ CHR ''|'' # join_parts qs'"
        by (simp add: join_parts_Cons)
      with p show ?thesis by simp
    qed
  next
    case False
    show ?thesis
    proof (cases "qs' = []")
      case True
      with False Cons.prems(5) qs have "q = p @ CHR ''|'' # join_parts ps"
        by (simp add: join_parts_Cons)
      with q show ?thesis by simp
    next
      case qne: False
      from False qne Cons.prems(5) qs
      have "p @ CHR ''|'' # join_parts ps = q @ CHR ''|'' # join_parts qs'"
        by (simp add: join_parts_Cons)
      from append_sep_eq [OF p q this] have "p = q" and "join_parts ps = join_parts qs'"
        by simp_all
      with Cons.IH [OF False qne sps sqs] qs show ?thesis by simp
    qed
  qed
qed

lemma append_sep_eq_rev:
  assumes "c \<notin> set z" and "c \<notin> set z'" and "s @ c # z = s' @ c # z'"
  shows "s = s' \<and> z = z'"
proof -
  from assms(3) have "rev (s @ c # z) = rev (s' @ c # z')" by simp
  then have "rev z @ c # rev s = rev z' @ c # rev s'" by simp
  with assms(1,2) have "rev z = rev z' \<and> rev s = rev s'"
    by (intro append_sep_eq) simp_all
  then show ?thesis by simp
qed

lemma join_parts_snoc: "xs \<noteq> [] \<Longrightarrow> join_parts (xs @ [z]) = join_parts xs @ CHR ''|'' # z"
  by (induction xs rule: join_parts.induct) auto

lemma sep_free_append: "sep_free (xs @ ys) = (sep_free xs \<and> sep_free ys)"
  by (simp add: sep_free_def)

lemma zip_no_difference:
  "length ps = length qs \<Longrightarrow> filter (\<lambda>pq. fst pq \<noteq> snd pq) (zip ps qs) = [] \<Longrightarrow> ps = qs"
  by (induction ps qs rule: list_induct2) (auto split: if_splits)

lemma one_differs_join:
  "length ps = length qs \<Longrightarrow> length (filter (\<lambda>pq. fst pq \<noteq> snd pq) (zip ps qs)) = 1 \<Longrightarrow>
   join_parts ps \<noteq> join_parts qs"
proof (induction ps qs rule: list_induct2)
  case Nil
  then show ?case by simp
next
  case (Cons p ps q qs)
  show ?case
  proof (cases "p = q")
    case True
    with Cons.prems have one: "length (filter (\<lambda>pq. fst pq \<noteq> snd pq) (zip ps qs)) = 1"
      by simp
    then have "ps \<noteq> []" by auto
    with Cons.hyps have "qs \<noteq> []" by auto
    from Cons.IH [OF one] \<open>ps \<noteq> []\<close> \<open>qs \<noteq> []\<close> True show ?thesis
      by (simp add: join_parts_Cons)
  next
    case False
    with Cons.prems have "filter (\<lambda>pq. fst pq \<noteq> snd pq) (zip ps qs) = []" by simp
    with Cons.hyps have eq: "ps = qs" by (rule zip_no_difference)
    show ?thesis
    proof (cases "qs = []")
      case True
      with eq False show ?thesis by simp
    next
      case ne: False
      with eq False show ?thesis by (simp add: join_parts_Cons)
    qed
  qed
qed

lemma join_parts_tail_inj:
  "length b = length b' \<Longrightarrow> sep_free b \<Longrightarrow> sep_free b' \<Longrightarrow>
   join_parts (x # b) = join_parts (y # b') \<Longrightarrow> x = y \<and> b = b'"
proof (induction b arbitrary: b' rule: rev_induct)
  case Nil
  then show ?case by simp
next
  case (snoc z b)
  from snoc.prems(1) obtain b1 z' where b': "b' = b1 @ [z']"
    by (cases b' rule: rev_cases) auto
  from snoc.prems b' have len: "length b = length b1"
    and sf: "sep_free b" "sep_free b1" and z: "CHR ''|'' \<notin> set z" "CHR ''|'' \<notin> set z'"
    by (simp_all add: sep_free_append sep_free_Cons)
  from snoc.prems(4) b'
  have "join_parts ((x # b) @ [z]) = join_parts ((y # b1) @ [z'])" by simp
  moreover have "join_parts ((x # b) @ [z]) = join_parts (x # b) @ CHR ''|'' # z"
    by (rule join_parts_snoc) simp
  moreover have "join_parts ((y # b1) @ [z']) = join_parts (y # b1) @ CHR ''|'' # z'"
    by (rule join_parts_snoc) simp
  ultimately have "join_parts (x # b) @ CHR ''|'' # z = join_parts (y # b1) @ CHR ''|'' # z'"
    by simp
  from append_sep_eq_rev [OF z this] have "join_parts (x # b) = join_parts (y # b1)" and "z = z'"
    by simp_all
  with snoc.IH [OF len sf] b' show ?case by simp
qed

lemma join_parts_confined_inj:
  "length ps = length qs \<Longrightarrow> sep_free_but i ps \<Longrightarrow> sep_free_but i qs \<Longrightarrow>
   join_parts ps = join_parts qs \<Longrightarrow> ps = qs"
proof (induction i arbitrary: ps qs)
  case 0
  show ?case
  proof (cases ps)
    case Nil
    with "0.prems" show ?thesis by simp
  next
    case (Cons x b)
    with "0.prems"(1) obtain y b' where qs: "qs = y # b'" by (cases qs) auto
    from "0.prems" Cons qs show ?thesis
      using join_parts_tail_inj [of b b' x y] by (simp add: sep_free_but_def)
  qed
next
  case (Suc i)
  show ?case
  proof (cases ps)
    case Nil
    with Suc.prems show ?thesis by simp
  next
    case (Cons p ps')
    with Suc.prems(1) obtain q qs' where qs: "qs = q # qs'" by (cases qs) auto
    from Suc.prems Cons qs have p: "CHR ''|'' \<notin> set p" and q: "CHR ''|'' \<notin> set q"
      and sf: "sep_free_but i ps'" "sep_free_but i qs'" and len: "length ps' = length qs'"
      by (simp_all add: sep_free_but_def sep_free_Cons)
    show ?thesis
    proof (cases "ps' = []")
      case True
      with len Suc.prems(4) Cons qs show ?thesis by simp
    next
      case False
      with len have "qs' \<noteq> []" by auto
      with False Suc.prems(4) Cons qs
      have "p @ CHR ''|'' # join_parts ps' = q @ CHR ''|'' # join_parts qs'"
        by (simp add: join_parts_Cons)
      from append_sep_eq [OF p q this] have "p = q" and "join_parts ps' = join_parts qs'"
        by simp_all
      with Suc.IH [OF len sf] Cons qs show ?thesis by simp
    qed
  qed
qed

subsection \<open>Evaluating the digest\<close>

text \<open>
  The digest is evaluated by rewriting: a rotation is a shift to the left joined with a
  shift to the right, and \<open>trunc32\<close> keeps the numerals below \<open>2^32\<close>. The first
  digest is the test vector of FI[''ts'', ''fetch logs | limit 5'', ''now()-1h'', ''now()'', ''v'', ''timestamp'', ''''] 180; the other two are the keys of a piped query
  without and with a label.
\<close>

lemma trunc32_id: "trunc32 w = w"
  by (simp add: trunc32_def)

lemma trunc32_numeral:
  "trunc32 (numeral k) = word_of_nat (case take_bit_num 32 k of None \<Rightarrow> 0 | Some q \<Rightarrow> numeral q)"
  by (simp add: trunc32_def unat_numeral)

lemma trunc32_0: "trunc32 0 = 0"
  by (simp add: trunc32_def)

lemma trunc32_1: "trunc32 1 = 1"
  by (simp add: trunc32_def)

lemma rotl32:
  assumes n: "n < 32"
  shows "word_rotl n (w :: 32 word) = push_bit n w OR drop_bit (32 - n) w"
proof (rule bit_word_eqI)
  fix k assume "k < LENGTH(32)"
  then have k: "k < 32" by simp
  have hi: "\<not> bit w j" if "32 \<le> j" for j
    using that bit_imp_le_length [of w j] by auto
  have rot: "bit (word_rotl n w) k = bit w ((k + (32 - n)) mod 32)"
    using k n by (simp add: bit_word_rotl_iff)
  have sum: "bit (push_bit n w OR drop_bit (32 - n) w) k =
      (n \<le> k \<and> bit w (k - n) \<or> bit w (k + (32 - n)))"
    using k by (simp add: bit_or_iff bit_push_bit_iff bit_drop_bit_eq add.commute)
  show "bit (word_rotl n w) k = bit (push_bit n w OR drop_bit (32 - n) w) k"
  proof (cases "n \<le> k")
    case True
    then have "k + (32 - n) = (k - n) + 32" using n by simp
    then have m: "(k + (32 - n)) mod 32 = k - n" using k by (simp only: mod_add_self2) simp
    have "\<not> bit w (k + (32 - n))" using True n by (intro hi) simp
    then show ?thesis using True by (simp only: rot sum m) simp
  next
    case False
    then have m: "(k + (32 - n)) mod 32 = k + (32 - n)" using n k by simp
    from False show ?thesis by (simp only: rot sum m) simp
  qed
qed

lemma round_step:
  "sha1_round w t (a, b, c, d, e) =
     (trunc32 ((push_bit 5 a OR drop_bit 27 a) +
        (if t < 20 then (b AND c) OR (NOT b AND d)
         else if t < 40 then b XOR c XOR d
         else if t < 60 then (b AND c) OR (b AND d) OR (c AND d)
         else b XOR c XOR d) + e +
        (if t < 20 then 0x5A827999 else if t < 40 then 0x6ED9EBA1
         else if t < 60 then 0x8F1BBCDC else 0xCA62C1D6) + w ! t),
      a, trunc32 (push_bit 30 b OR drop_bit 2 b), c, d)"
  by (simp add: sha1_round_def rotl32 trunc32_id Let_def)

lemma expand_step:
  "expand (numeral k) w =
     expand (pred_numeral k)
       (w @ [trunc32 (push_bit 1 (w ! (length w - 3) XOR w ! (length w - 8) XOR
                                  w ! (length w - 14) XOR w ! (length w - 16)) OR
                      drop_bit 31 (w ! (length w - 3) XOR w ! (length w - 8) XOR
                                  w ! (length w - 14) XOR w ! (length w - 16)))])"
  by (simp add: numeral_eq_Suc rotl32 trunc32_id Let_def)

lemma expand_last:
  "expand (Suc 0) w =
     w @ [trunc32 (push_bit 1 (w ! (length w - 3) XOR w ! (length w - 8) XOR
                              w ! (length w - 14) XOR w ! (length w - 16)) OR
                  drop_bit 31 (w ! (length w - 3) XOR w ! (length w - 8) XOR
                              w ! (length w - 14) XOR w ! (length w - 16)))]"
  by (simp add: rotl32 trunc32_id Let_def)

lemma replicate_numeral: "replicate (numeral k) x = x # replicate (pred_numeral k) x"
  by (simp add: numeral_eq_Suc)

lemmas sha1_eval =
  sha1_hexdigest_def sha1_block_def sha1_pad_def round_step expand_step expand_last
  trunc32_numeral trunc32_0 trunc32_1 replicate_numeral upt_conv_Cons hex_word_def
  hex_digit_def char_of_eq_iff

lemma sha1_abc: "sha1_hexdigest ''abc'' = ''a9993e364706816aba3e25717850c26c9cd0d89d''"
  by (simp add: sha1_eval del: expand.simps)

lemma sha1_no_label:
  "sha1_hexdigest ''ts|fetch logs | limit 5|now()-1h|now()|v|timestamp|'' =
     ''29f80f5fd03e74970b286d12445d0d9aa0dfa9dc''"
  by (simp add: sha1_eval del: expand.simps)

lemma sha1_label_host:
  "sha1_hexdigest ''ts|fetch logs | limit 5|now()-1h|now()|v|timestamp|host'' =
     ''1b37f2e27859aac25135714ab6a3ac4dce2b85f5''"
  by (simp add: sha1_eval del: expand.simps)

text \<open>
  C5, as the code has it. The fingerprint is the SHA-1 digest of the parts joined by
  \<open>|\<close>. The same list of parts gives the same fingerprint. Two lists that differ at
  exactly one position, or that have one length and the separator in no part but at one
  position (the same in both, the query text for instance), or that have the separator
  in no part at all, have one fingerprint only if they are the same list or SHA-1 itself
  collides on their two joined strings.
\<close>

theorem hash_key_collision:
  assumes "ps = qs \<or> one_differs ps qs \<or>
           (length ps = length qs \<and> sep_free_but i ps \<and> sep_free_but i qs) \<or>
           (ps \<noteq> [] \<and> qs \<noteq> [] \<and> sep_free ps \<and> sep_free qs)"
  shows "(hash_key ps = hash_key qs) =
         (ps = qs \<or> sha1_collision (join_parts ps) (join_parts qs))"
proof -
  have "join_parts ps = join_parts qs \<Longrightarrow> ps = qs"
    using assms one_differs_join [of ps qs] join_parts_confined_inj [of ps qs i]
      join_parts_inj [of ps qs]
    by (auto simp: one_differs_def)
  then show ?thesis by (auto simp: hash_key_def sha1_collision_def)
qed

lemma hash_key_no_label:
  "hash_key [''ts'', ''fetch logs | limit 5'', ''now()-1h'', ''now()'', ''v'', ''timestamp'', ''''] =
     ''29f80f5fd03e74970b286d12445d0d9aa0dfa9dc''"
  by (simp add: hash_key_def sha1_no_label)

lemma hash_key_label_host:
  "hash_key [''ts'', ''fetch logs | limit 5'', ''now()-1h'', ''now()'', ''v'', ''timestamp'', ''host''] =
     ''1b37f2e27859aac25135714ab6a3ac4dce2b85f5''"
  by (simp add: hash_key_def sha1_label_host)

theorem hash_key_collision_witness:
  "one_differs
     [''ts'', ''fetch logs | limit 5'', ''now()-1h'', ''now()'', ''v'', ''timestamp'', '''']
     [''ts'', ''fetch logs | limit 5'', ''now()-1h'', ''now()'', ''v'', ''timestamp'', ''host''] \<and>
   hash_key [''ts'', ''fetch logs | limit 5'', ''now()-1h'', ''now()'', ''v'', ''timestamp'', ''''] =
     ''29f80f5fd03e74970b286d12445d0d9aa0dfa9dc'' \<and>
   hash_key [''ts'', ''fetch logs | limit 5'', ''now()-1h'', ''now()'', ''v'', ''timestamp'', ''host''] =
     ''1b37f2e27859aac25135714ab6a3ac4dce2b85f5'' \<and>
   hash_key [''ts'', ''fetch logs | limit 5'', ''now()-1h'', ''now()'', ''v'', ''timestamp'', ''''] \<noteq>
   hash_key [''ts'', ''fetch logs | limit 5'', ''now()-1h'', ''now()'', ''v'', ''timestamp'', ''host'']"
  using hash_key_collision
      [of "[''ts'', ''fetch logs | limit 5'', ''now()-1h'', ''now()'', ''v'', ''timestamp'', '''']"
          "[''ts'', ''fetch logs | limit 5'', ''now()-1h'', ''now()'', ''v'', ''timestamp'', ''host'']" 1]
    hash_key_no_label hash_key_label_host
  by (simp add: one_differs_def)

text \<open>
  C5 as stated fails when a parameter contains the separator: the query
  \<open>fetch logs|x\<close> from \<open>y\<close> and the query \<open>fetch logs\<close> from \<open>x|y\<close> differ in two
  positions and have the same fingerprint, whatever the digest.
\<close>

theorem hash_key_collision_counterexample:
  "[''table'', ''fetch logs|x'', ''y'', ''z''] \<noteq> [''table'', ''fetch logs'', ''x|y'', ''z''] \<and>
   hash_key [''table'', ''fetch logs|x'', ''y'', ''z''] =
   hash_key [''table'', ''fetch logs'', ''x|y'', ''z'']"
  by (simp add: hash_key_def)

section \<open>The execution engine\<close>


lemma grail_query_submitted:
  "submitted cfg e \<Longrightarrow>
   grail_query cfg dql from' to' T t0 (e # es) =
     poll_loop T (t0 + latency e) (1 / 4) (t0 + latency e) es"
  by (auto simp: submitted_def grail_query_def Let_def split: reply.splits option.splits)


text \<open>
  The engine returns: when no round trip takes negative time and the backend keeps
  answering for more than \<open>4 * timeout_sec + 2\<close> requests, the loop ends (each sleep
  is a quarter of a second at least).
\<close>

lemma poll_loop_returns:
  "\<forall>e \<in> set es. 0 \<le> latency e \<Longrightarrow> 1 / 4 \<le> b \<Longrightarrow> es \<noteq> [] \<Longrightarrow>
   of_int T - (t0 - start) < (real (length es) - 1) / 4 \<Longrightarrow>
   \<exists>r. poll_loop T start b t0 es = Some r"
proof (induction es arbitrary: b t0)
  case Nil
  then show ?case by simp
next
  case (Cons e es)
  show ?case
  proof (cases "pending e \<and> \<not> t0 + latency e - start > of_int T")
    case False
    then show ?thesis
      by (auto simp: pending_def Let_def split: reply.splits option.splits)
  next
    case True
    then have step: "poll_loop T start b t0 (e # es) =
        poll_loop T start (min (b * 2) 1) (t0 + latency e + b) es"
      by (auto simp: pending_def Let_def split: reply.splits option.splits)
    from Cons.prems have lat: "0 \<le> latency e" by simp
    from True lat have "0 \<le> of_int T - (t0 - start)" by simp
    with Cons.prems(4) have ne: "es \<noteq> []" by (cases es) auto
    have b': "1 / 4 \<le> min (b * 2) 1" using Cons.prems(2) by simp
    have "of_int T - (t0 + latency e + b - start) < (real (length es) - 1) / 4"
      using Cons.prems(2,4) lat by simp
    from Cons.IH [OF _ b' ne this] Cons.prems(1) step show ?thesis by simp
  qed
qed

lemma grail_query_returns:
  assumes "\<forall>e \<in> set scr. 0 \<le> latency e" and "2 \<le> length scr"
    and "of_int T < (real (length scr) - 2) / 4"
  shows "\<exists>r. grail_query cfg dql from' to' T t0 scr = Some r"
proof -
  from assms(2) obtain e es where scr: "scr = e # es"
    by (cases scr) auto
  with assms(2) have ne: "es \<noteq> []" by auto
  show ?thesis
  proof (cases "submitted cfg e")
    case True
    have "\<exists>r. poll_loop T (t0 + latency e) (1 / 4) (t0 + latency e) es = Some r"
      using assms(1,3) ne by (intro poll_loop_returns) (auto simp: scr)
    with True show ?thesis by (simp add: scr grail_query_submitted)
  next
    case False
    then show ?thesis
      by (auto simp: scr submitted_def grail_query_def Let_def split: reply.splits option.splits)
  qed
qed

text \<open>
  The exception of the timeout is the one the engine raises for a poll that the backend
  answers with status 504 and the body \<open>Grail timeout\<close>.
\<close>

lemma timeout_like_backend_504:
  "http_exception (Timeout :: 'f error) = http_exception (PollRejected 504 ''Grail timeout'')"
  by simp





section \<open>The request handlers\<close>

lemma dict_pop_absent: "map_of d k = None \<Longrightarrow> dict_pop k d = d"
  by (induction d) (auto simp: dict_pop_def split: if_splits)

lemma cache_get_miss:
  "fst (cache_get c t key ttl) = None \<Longrightarrow>
   snd (cache_get c t key ttl) = c\<lparr>store := dict_pop key (store c)\<rparr>"
  by (auto simp: cache_get_def dict_pop_absent split: option.splits if_splits)

lemma lookup_or_run_engine_fails:
  assumes "grail_query cfg dql from' to' (query_timeout cfg) (now w) (script w) = Some (Inl e, t, es)"
    and "lookup_missed w key ttl"
  shows "lookup_or_run cfg key ttl dql from' to' shape w = Some (Inl e, after_failure w t es key)"
proof -
  obtain r c where g: "cache_get (cache w) (now w) key ttl = (r, c)" by force
  with assms(2) have r: "r = None" by (simp add: lookup_missed_def)
  from cache_get_miss [of "cache w" "now w" key ttl] g r
  have c: "c = (cache w)\<lparr>store := dict_pop key (store (cache w))\<rparr>" by simp
  show ?thesis
    by (simp add: lookup_or_run_def g r run_and_store_def assms(1) after_failure_def c)
qed

lemma after_failure_cache:
  "map_of (store (cache (after_failure w t es key))) k =
     (if k = key then None else map_of (store (cache w)) k)"
  by (simp add: after_failure_def map_of_dict_pop)

lemma after_failure_unchanged:
  "map_of (store (cache w)) key = None \<Longrightarrow> cache (after_failure w t es key) = cache w"
  by (simp add: after_failure_def dict_pop_absent)

text \<open>
  C10, as the code has it. When the engine fails, for whatever reason, in a request that
  passed the authorization and whose lookup missed, each of the three handlers returns
  the engine's error and stores nothing: the cache afterwards is the cache before without
  the entry of the request's key (the lookup has removed it if it had expired), so the
  key has no entry and every other key has the entry it had.
\<close>

theorem handlers_engine_failure:
  fixes w :: "'f world"
  assumes "(require_auth cfg authorization :: 'f error + unit) = Inr ()"
    and "grail_query cfg dql from' to' (query_timeout cfg) (now w) (script w) = Some (Inl e, t, es)"
  shows "(lookup_missed w (hash_key [''table'', dql, from', to']) ttl \<longrightarrow>
            table cfg dql from' to' authorization ttl w =
              Some (Inl e, after_failure w t es (hash_key [''table'', dql, from', to']))) \<and>
         (lookup_missed w (hash_key [''ts'', dql, from', to', value, timecol,
              (case label of None \<Rightarrow> [] | Some l \<Rightarrow> l)]) ttl \<longrightarrow>
            timeseries lib cfg dql from' to' value timecol label authorization ttl w =
              Some (Inl e, after_failure w t es (hash_key [''ts'', dql, from', to', value, timecol,
                (case label of None \<Rightarrow> [] | Some l \<Rightarrow> l)]))) \<and>
         (dql \<noteq> [] \<and> lookup_missed w (hash_key [''raw'', dql, from', to']) (raw_ttl cfg) \<longrightarrow>
            raw_query cfg (Some dql) (Some from') (Some to') authorization w =
              Some (Inl e, after_failure w t es (hash_key [''raw'', dql, from', to']))) \<and>
         (\<forall>key k. map_of (store (cache (after_failure w t es key))) k =
            (if k = key then None else map_of (store (cache w)) k))"
  using assms
  by (simp add: table_def timeseries_def raw_query_def lookup_or_run_engine_fails
      after_failure_cache)

lemma world1_engine:
  "grail_query cfg1 ''q'' ''a'' ''b'' (query_timeout cfg1) (now world1) (script world1) =
     Some (Inl Timeout, 413 / 4, [ok_reply (1 / 2) None (Some ''RUNNING'')])"
  by (simp add: grail_query_def cfg1_def cfg0_def world1_def never_done_def ok_reply_def Let_def)

lemma world1_auth: "(require_auth cfg1 None :: xfloat error + unit) = Inr ()"
  by (simp add: require_auth_def cfg1_def cfg0_def)

theorem handlers_engine_failure_witness:
  "(require_auth cfg1 None :: xfloat error + unit) = Inr () \<and>
   grail_query cfg1 ''q'' ''a'' ''b'' (query_timeout cfg1) (now world1) (script world1) =
     Some (Inl Timeout, 413 / 4, [ok_reply (1 / 2) None (Some ''RUNNING'')]) \<and>
   lookup_missed world1 (hash_key [''table'', ''q'', ''a'', ''b'']) 30 \<and>
   table cfg1 ''q'' ''a'' ''b'' None 30 world1 =
     Some (Inl Timeout,
       \<lparr>now = 413 / 4, script = [ok_reply (1 / 2) None (Some ''RUNNING'')],
        cache = cache world1\<rparr>)"
  using handlers_engine_failure [OF world1_auth world1_engine, of 30 "''v''" "''ts''" None pylib0]
    world1_auth world1_engine
  by (simp add: lookup_missed_def cache_get_def world1_def after_failure_def dict_pop_def)

text \<open>
  C10 as stated fails when the cache holds an expired entry for the request: the lookup
  of the handler removes it before the engine runs, so after the failed request the cache
  is not the cache before.
\<close>

theorem handlers_engine_failure_counterexample:
  "table cfg0 ''q'' ''a'' ''b'' None 30 world0 =
     Some (Inl (SubmitRejected 503 ''unavailable''),
       \<lparr>now = 101, script = [], cache = \<lparr>max_items = 512, store = []\<rparr>\<rparr>) \<and>
   cache world0 \<noteq> \<lparr>max_items = 512, store = []\<rparr>"
  by (simp add: table_def require_auth_def cfg0_def lookup_or_run_def run_and_store_def
      cache_get_def world0_def dict_pop_def grail_query_def Let_def)

end
